theory Spec2Isabelle
  imports Main
begin

section \<open>Python values and exceptions\<close>

text \<open>
  The attributes of a Django model instance are dynamically typed, and the manager
  methods of \<^verbatim>\<open>models.py\<close> receive arbitrary keyword arguments. The values that
  occur are \<^verbatim>\<open>None\<close>, booleans, unbounded integers and strings; a foreign key and a
  primary key are held as the integer key of the row.
\<close>

datatype pyval = PyNone | PyBool bool | PyInt int | PyStr string

datatype error =
    ValueError string
  | TypeError
  | AttributeError
  | IntegrityError
  | DatabaseError
  | DoesNotExist
  | MultipleObjectsReturned

text \<open>Python truth value, as tested by \<^verbatim>\<open>if not x\<close>.\<close>

fun truthy :: "pyval \<Rightarrow> bool" where
  "truthy PyNone = False"
| "truthy (PyBool b) = b"
| "truthy (PyInt n) = (n \<noteq> 0)"
| "truthy (PyStr s) = (s \<noteq> [])"

text \<open>
  The Python operator \<^verbatim>\<open>*\<close> on these values: integers (a boolean counts as 0 or 1)
  multiply, a string and an integer repeat the string, anything else raises TypeError.
\<close>

fun as_int :: "pyval \<Rightarrow> int option" where
  "as_int (PyInt n) = Some n"
| "as_int (PyBool b) = Some (if b then 1 else 0)"
| "as_int _ = None"

definition repeat :: "string \<Rightarrow> pyval \<Rightarrow> error + pyval" where
  "repeat s b =
     (case as_int b of
        Some n \<Rightarrow> Inr (PyStr (concat (replicate (nat n) s)))
      | None \<Rightarrow> Inl TypeError)"

definition py_mul :: "pyval \<Rightarrow> pyval \<Rightarrow> error + pyval" where
  "py_mul a b =
     (case (a, b) of
        (PyStr s, PyStr t) \<Rightarrow> Inl TypeError
      | (PyStr s, _) \<Rightarrow> repeat s b
      | (_, PyStr t) \<Rightarrow> repeat t a
      | _ \<Rightarrow>
         (case (as_int a, as_int b) of
            (Some x, Some y) \<Rightarrow> Inr (PyInt (x * y))
          | _ \<Rightarrow> Inl TypeError))"

section \<open>The schema declared by models.py\<close>

datatype model =
    User | ConfirmEmailToken | Contact | Shop | Category | Category_shops | Product
  | ProductInfo | Parameter | ProductParameter | Order | OrderItem

datatype on_delete = CASCADE

datatype kind =
    AutoField | CharField | EmailField | URLField | FileField | BooleanField
  | PositiveIntegerField | DateTimeField
  | ForeignKey model on_delete
  | OneToOneField model on_delete

text \<open>
  A field declaration with the options that \<^verbatim>\<open>models.py\<close> uses. \<open>max_length\<close> and
  \<open>choices\<close> are recorded as declared. Django checks \<open>choices\<close>, and \<open>max_length\<close>
  itself, only in form and \<^verbatim>\<open>full_clean\<close> validation, which no method of
  \<^verbatim>\<open>models.py\<close> calls. \<open>max_length\<close> also sizes the column, and whether a longer
  value is refused on a write depends on the database backend, which is not part of the
  repository: SQLite stores it, PostgreSQL raises an error. The store below checks no
  lengths. Labels of the choices (the second components in the source) are display text
  and are left out.
\<close>

record field =
  name :: string
  kind :: kind
  null :: bool
  unique :: bool
  default :: "pyval option"
  auto_now_add :: bool
  max_length :: "nat option"
  choices :: "string list"

definition fld :: "string \<Rightarrow> kind \<Rightarrow> field" where
  "fld n k = \<lparr>name = n, kind = k, null = False, unique = False, default = None,
              auto_now_add = False, max_length = None, choices = []\<rparr>"

definition USER_TYPE_CHOICES :: "string list" where
  "USER_TYPE_CHOICES = [''shop'', ''buyer'']"

definition STATUS_CHOICES :: "string list" where
  "STATUS_CHOICES =
     [''basket'', ''new'', ''confirmed'', ''assembled'', ''sent'', ''delivered'', ''canceled'']"

text \<open>The implicit primary key \<^verbatim>\<open>id\<close> that Django adds to every model.\<close>

definition id_field :: field where
  "id_field = fld ''id'' AutoField"

text \<open>
  \<^verbatim>\<open>class User(AbstractUser)\<close>: the first eight columns are inherited from Django's
  \<^verbatim>\<open>AbstractUser\<close> (its two timestamp columns and the permission relations are left
  out); \<^verbatim>\<open>email\<close> is redeclared by the class, and \<^verbatim>\<open>organization\<close>,
  \<^verbatim>\<open>position\<close> and \<^verbatim>\<open>type\<close> are added.
\<close>

definition User_fields :: "field list" where
  "User_fields =
     [id_field,
      (fld ''password'' CharField)\<lparr>max_length := Some 128\<rparr>,
      (fld ''is_superuser'' BooleanField)\<lparr>default := Some (PyBool False)\<rparr>,
      (fld ''username'' CharField)\<lparr>max_length := Some 150, unique := True\<rparr>,
      (fld ''first_name'' CharField)\<lparr>max_length := Some 150\<rparr>,
      (fld ''last_name'' CharField)\<lparr>max_length := Some 150\<rparr>,
      (fld ''is_staff'' BooleanField)\<lparr>default := Some (PyBool False)\<rparr>,
      (fld ''is_active'' BooleanField)\<lparr>default := Some (PyBool True)\<rparr>,
      (fld ''email'' EmailField)\<lparr>max_length := Some 40, unique := True\<rparr>,
      (fld ''organization'' CharField)\<lparr>max_length := Some 40, null := True\<rparr>,
      (fld ''position'' CharField)\<lparr>max_length := Some 40, null := True\<rparr>,
      (fld ''type'' CharField)\<lparr>choices := USER_TYPE_CHOICES, max_length := Some 5,
                                default := Some (PyStr ''buyer'')\<rparr>]"

definition ConfirmEmailToken_fields :: "field list" where
  "ConfirmEmailToken_fields =
     [id_field,
      fld ''user'' (ForeignKey User CASCADE),
      (fld ''created_at'' DateTimeField)\<lparr>auto_now_add := True\<rparr>,
      (fld ''key'' CharField)\<lparr>max_length := Some 64, unique := True\<rparr>]"

definition Contact_fields :: "field list" where
  "Contact_fields =
     [id_field,
      fld ''user'' (ForeignKey User CASCADE),
      (fld ''city'' CharField)\<lparr>max_length := Some 60\<rparr>,
      (fld ''street'' CharField)\<lparr>max_length := Some 120\<rparr>,
      (fld ''house'' CharField)\<lparr>max_length := Some 40\<rparr>,
      (fld ''apartment'' CharField)\<lparr>max_length := Some 20\<rparr>,
      (fld ''email'' EmailField)\<lparr>max_length := Some 60\<rparr>,
      (fld ''phone'' CharField)\<lparr>max_length := Some 40\<rparr>,
      (fld ''work_phone'' CharField)\<lparr>max_length := Some 40\<rparr>]"

definition Shop_fields :: "field list" where
  "Shop_fields =
     [id_field,
      (fld ''name'' CharField)\<lparr>max_length := Some 50\<rparr>,
      (fld ''url'' URLField)\<lparr>null := True\<rparr>,
      (fld ''file_name'' FileField)\<lparr>null := True\<rparr>,
      (fld ''user'' (OneToOneField User CASCADE))\<lparr>null := True\<rparr>,
      (fld ''state'' BooleanField)\<lparr>default := Some (PyBool True)\<rparr>]"

definition Category_fields :: "field list" where
  "Category_fields =
     [id_field,
      (fld ''name'' CharField)\<lparr>max_length := Some 50\<rparr>]"

text \<open>
  \<^verbatim>\<open>Category.shops = ManyToManyField(Shop)\<close> is stored by Django in a link table of
  its own, one row per (category, shop) pair, each side a cascading foreign key.
\<close>

definition Category_shops_fields :: "field list" where
  "Category_shops_fields =
     [id_field,
      fld ''category'' (ForeignKey Category CASCADE),
      fld ''shop'' (ForeignKey Shop CASCADE)]"

definition Product_fields :: "field list" where
  "Product_fields =
     [id_field,
      (fld ''name'' CharField)\<lparr>max_length := Some 100\<rparr>,
      fld ''category'' (ForeignKey Category CASCADE)]"

definition ProductInfo_fields :: "field list" where
  "ProductInfo_fields =
     [id_field,
      (fld ''model'' CharField)\<lparr>max_length := Some 100\<rparr>,
      fld ''quantity'' PositiveIntegerField,
      fld ''price'' PositiveIntegerField,
      fld ''price_rrc'' PositiveIntegerField,
      fld ''product'' (ForeignKey Product CASCADE),
      fld ''shop'' (ForeignKey Shop CASCADE)]"

definition Parameter_fields :: "field list" where
  "Parameter_fields =
     [id_field,
      (fld ''name'' CharField)\<lparr>max_length := Some 50\<rparr>]"

definition ProductParameter_fields :: "field list" where
  "ProductParameter_fields =
     [id_field,
      fld ''product_info'' (ForeignKey ProductInfo CASCADE),
      fld ''parameter'' (ForeignKey Parameter CASCADE),
      (fld ''value'' CharField)\<lparr>max_length := Some 100\<rparr>]"

definition Order_fields :: "field list" where
  "Order_fields =
     [id_field,
      fld ''user'' (ForeignKey User CASCADE),
      (fld ''contact'' (ForeignKey Contact CASCADE))\<lparr>null := True\<rparr>,
      (fld ''dt'' DateTimeField)\<lparr>auto_now_add := True\<rparr>,
      (fld ''status'' CharField)\<lparr>max_length := Some 15, choices := STATUS_CHOICES\<rparr>]"

definition OrderItem_fields :: "field list" where
  "OrderItem_fields =
     [id_field,
      fld ''order'' (ForeignKey Order CASCADE),
      fld ''product_info'' (ForeignKey ProductInfo CASCADE),
      (fld ''quantity'' PositiveIntegerField)\<lparr>default := Some (PyInt 1)\<rparr>,
      (fld ''price'' PositiveIntegerField)\<lparr>default := Some (PyInt 0)\<rparr>,
      (fld ''total_amount'' PositiveIntegerField)\<lparr>default := Some (PyInt 0)\<rparr>]"

fun meta_fields :: "model \<Rightarrow> field list" where
  "meta_fields User = User_fields"
| "meta_fields ConfirmEmailToken = ConfirmEmailToken_fields"
| "meta_fields Contact = Contact_fields"
| "meta_fields Shop = Shop_fields"
| "meta_fields Category = Category_fields"
| "meta_fields Category_shops = Category_shops_fields"
| "meta_fields Product = Product_fields"
| "meta_fields ProductInfo = ProductInfo_fields"
| "meta_fields Parameter = Parameter_fields"
| "meta_fields ProductParameter = ProductParameter_fields"
| "meta_fields Order = Order_fields"
| "meta_fields OrderItem = OrderItem_fields"

definition all_models :: "model list" where
  "all_models =
     [User, ConfirmEmailToken, Contact, Shop, Category, Category_shops, Product,
      ProductInfo, Parameter, ProductParameter, Order, OrderItem]"

text \<open>\<^verbatim>\<open>Meta.constraints\<close>, as declared.\<close>

datatype constraint = UniqueConstraint (constraint_fields: "string list") (constraint_name: string)

fun constraints :: "model \<Rightarrow> constraint list" where
  "constraints ProductInfo = [UniqueConstraint [''product'', ''shop''] ''unique_product_info'']"
| "constraints ProductParameter =
     [UniqueConstraint [''product_info'', ''parameter''] ''unique_product_parameter'']"
| "constraints OrderItem =
     [UniqueConstraint [''order_id'', ''product_info''] ''unique_order_item'']"
| "constraints Category_shops = [UniqueConstraint [''category'', ''shop''] []]"
| "constraints _ = []"

section \<open>Instances and the store\<close>

text \<open>
  A model instance is its attribute dictionary; keyword arguments are a Python
  dictionary in insertion order. The store holds one table per model and the current
  time. A missing attribute is read like \<^verbatim>\<open>None\<close> by the store.
\<close>

type_synonym obj = "string \<rightharpoonup> pyval"

type_synonym kwargs = "(string \<times> pyval) list"

record db =
  tables :: "model \<Rightarrow> obj list"
  clock :: int

definition row_id :: "obj \<Rightarrow> pyval" where
  "row_id r = (case r ''id'' of Some v \<Rightarrow> v | None \<Rightarrow> PyNone)"

fun target :: "kind \<Rightarrow> model option" where
  "target (ForeignKey t _) = Some t"
| "target (OneToOneField t _) = Some t"
| "target _ = None"

fun is_one_to_one :: "kind \<Rightarrow> bool" where
  "is_one_to_one (OneToOneField _ _) = True"
| "is_one_to_one _ = False"

text \<open>A relation \<^verbatim>\<open>f\<close> is also reachable under the column name \<^verbatim>\<open>f_id\<close>.\<close>

definition attname :: "field \<Rightarrow> string" where
  "attname f = (if target (kind f) = None then name f else name f @ ''_id'')"

definition resolve :: "model \<Rightarrow> string \<Rightarrow> string" where
  "resolve m s =
     (case find (\<lambda>f. name f = s \<or> attname f = s) (meta_fields m) of
        Some f \<Rightarrow> name f
      | None \<Rightarrow> s)"

subsection \<open>Instantiation: \<^verbatim>\<open>Model(**kwargs)\<close>\<close>

text \<open>
  Django's \<^verbatim>\<open>Field.get_default\<close>: the declared default; without one, the empty
  string for a text column that is not nullable, and \<^verbatim>\<open>None\<close> otherwise.
\<close>

definition empty_strings_allowed :: "kind \<Rightarrow> bool" where
  "empty_strings_allowed k = (k \<in> {CharField, EmailField, URLField, FileField})"

definition get_default :: "field \<Rightarrow> pyval" where
  "get_default f =
     (case default f of
        Some v \<Rightarrow> v
      | None \<Rightarrow> if \<not> empty_strings_allowed (kind f) \<or> null f then PyNone else PyStr [])"

text \<open>
  Django's \<^verbatim>\<open>Model.__init__\<close>: every field takes its keyword argument (for a
  relation the column name \<^verbatim>\<open>f_id\<close> wins over \<^verbatim>\<open>f\<close>, and \<^verbatim>\<open>pk\<close> names the
  primary key) or its default; a keyword that names no field raises TypeError.
\<close>

definition init_value :: "kwargs \<Rightarrow> field \<Rightarrow> pyval" where
  "init_value kw f =
     (case (if kind f = AutoField then map_of kw ''pk'' else None) of
        Some v \<Rightarrow> v
      | None \<Rightarrow>
         (case map_of kw (attname f) of
            Some v \<Rightarrow> v
          | None \<Rightarrow> (case map_of kw (name f) of Some v \<Rightarrow> v | None \<Rightarrow> get_default f)))"

definition Model_init :: "model \<Rightarrow> kwargs \<Rightarrow> error + obj" where
  "Model_init m kw =
     (if \<exists>k \<in> set (map fst kw).
           k \<notin> set (map name (meta_fields m) @ map attname (meta_fields m) @ [''pk''])
      then Inl TypeError
      else Inr (map_of (map (\<lambda>f. (name f, init_value kw f)) (meta_fields m))))"

subsection \<open>Persisting: \<^verbatim>\<open>Model.save\<close>\<close>

text \<open>
  What the relational store checks on a write: NOT NULL columns, the CHECK of a
  \<^verbatim>\<open>PositiveIntegerField\<close>, the existence of referenced rows, and uniqueness
  (\<^verbatim>\<open>unique=True\<close>, one-to-one relations, \<^verbatim>\<open>Meta.constraints\<close>). As in SQL, a
  NULL never collides with anything.
\<close>

definition not_null_ok :: "model \<Rightarrow> obj \<Rightarrow> bool" where
  "not_null_ok m inst =
     (\<forall>f \<in> set (meta_fields m). \<not> null f \<longrightarrow> inst (name f) \<noteq> None \<and> inst (name f) \<noteq> Some PyNone)"

definition check_ok :: "model \<Rightarrow> obj \<Rightarrow> bool" where
  "check_ok m inst =
     (\<forall>f \<in> set (meta_fields m). kind f = PositiveIntegerField \<longrightarrow>
        (case inst (name f) of Some (PyInt n) \<Rightarrow> 0 \<le> n | _ \<Rightarrow> True))"

definition fk_ok :: "db \<Rightarrow> model \<Rightarrow> obj \<Rightarrow> bool" where
  "fk_ok d m inst =
     (\<forall>f \<in> set (meta_fields m).
        case target (kind f) of
          None \<Rightarrow> True
        | Some t \<Rightarrow>
            (case inst (name f) of
               None \<Rightarrow> True
             | Some v \<Rightarrow> v = PyNone \<or> v \<in> set (map row_id (tables d t))))"

definition unique_sets :: "model \<Rightarrow> string list list" where
  "unique_sets m =
     [[name f]. f \<leftarrow> meta_fields m, unique f \<or> is_one_to_one (kind f)] @
     [map (resolve m) (constraint_fields c). c \<leftarrow> constraints m]"

definition conflicts :: "model \<Rightarrow> obj \<Rightarrow> obj \<Rightarrow> bool" where
  "conflicts m new old =
     (row_id old \<noteq> row_id new \<and>
      (\<exists>fs \<in> set (unique_sets m).
         \<forall>f \<in> set fs. new f = old f \<and> new f \<noteq> None \<and> new f \<noteq> Some PyNone))"

definition db_accepts :: "db \<Rightarrow> model \<Rightarrow> obj \<Rightarrow> bool" where
  "db_accepts d m inst =
     (not_null_ok m inst \<and> check_ok m inst \<and> fk_ok d m inst \<and>
      \<not> (\<exists>r \<in> set (tables d m). conflicts m inst r))"

text \<open>A fresh primary key: one more than the largest integer key of the table.\<close>

definition int_ids :: "obj list \<Rightarrow> int list" where
  "int_ids rows = concat (map (\<lambda>r. case row_id r of PyInt n \<Rightarrow> [n] | _ \<Rightarrow> []) rows)"

definition next_id :: "obj list \<Rightarrow> int" where
  "next_id rows = 1 + fold max (int_ids rows) 0"

text \<open>
  \<^verbatim>\<open>Model.save\<close> updates the row with the instance's primary key when there is one,
  and inserts otherwise. An insert assigns the primary key if the instance has none and
  stamps the \<^verbatim>\<open>auto_now_add\<close> columns. A write that the store rejects raises
  IntegrityError and leaves the store as it was.
\<close>

definition is_update :: "db \<Rightarrow> model \<Rightarrow> obj \<Rightarrow> bool" where
  "is_update d m inst =
     (row_id inst \<noteq> PyNone \<and> row_id inst \<in> set (map row_id (tables d m)))"

definition pre_save :: "db \<Rightarrow> model \<Rightarrow> obj \<Rightarrow> obj" where
  "pre_save d m inst =
     (if is_update d m inst then inst
      else (\<lambda>k. if k \<in> set (map name (filter auto_now_add (meta_fields m)))
                then Some (PyInt (clock d))
                else if k = ''id'' \<and> row_id inst = PyNone
                then Some (PyInt (next_id (tables d m)))
                else inst k))"

definition write_row :: "db \<Rightarrow> model \<Rightarrow> obj \<Rightarrow> db" where
  "write_row d m inst =
     d\<lparr>tables := (tables d)
         (m := (if row_id inst \<in> set (map row_id (tables d m))
                then map (\<lambda>r. if row_id r = row_id inst then inst else r) (tables d m)
                else tables d m @ [inst]))\<rparr>"

definition Model_save :: "db \<Rightarrow> model \<Rightarrow> obj \<Rightarrow> db \<times> (error + obj)" where
  "Model_save d m inst =
     (let inst1 = pre_save d m inst
      in if db_accepts d m inst1 then (write_row d m inst1, Inr inst1)
         else (d, Inl IntegrityError))"

text \<open>
  The arguments of \<^verbatim>\<open>Model.save\<close>, given by position or by keyword.
  \<^verbatim>\<open>using\<close> names the database the write goes to; the store \<open>d\<close> that an
  operation is applied to stands for that database, so the argument has no further effect.
\<close>

record save_args =
  force_insert :: bool
  force_update :: bool
  using_alias :: "string option"
  update_fields :: "string list option"

definition no_args :: save_args where
  "no_args =
     \<lparr>force_insert = False, force_update = False, using_alias = None, update_fields = None\<rparr>"

text \<open>The names \<^verbatim>\<open>update_fields\<close> may hold: every column but the primary key.\<close>

definition non_pk_names :: "model \<Rightarrow> string list" where
  "non_pk_names m =
     concat (map (\<lambda>f. if kind f = AutoField then [] else [name f, attname f]) (meta_fields m))"

text \<open>The stored row \<open>r\<close> with the columns \<open>fs\<close> taken from the instance \<open>x\<close>.\<close>

definition merge_fields :: "model \<Rightarrow> string list \<Rightarrow> obj \<Rightarrow> obj \<Rightarrow> obj" where
  "merge_fields m fs x r = (\<lambda>k. if k \<in> set (map (resolve m) fs) then x k else r k)"

text \<open>
  \<^verbatim>\<open>Model.save(force_insert, force_update, using, update_fields)\<close>. An empty
  \<^verbatim>\<open>update_fields\<close> returns at once and writes nothing. A non-empty one forces an
  UPDATE of the row with the instance's primary key that writes the named columns only;
  it raises ValueError for a name that is no column or for an instance without primary
  key, and DatabaseError when no row has that key. \<^verbatim>\<open>force_update\<close> forces the
  UPDATE of all columns, \<^verbatim>\<open>force_insert\<close> an INSERT, which a row with the same
  primary key makes fail. Without arguments this is \<open>Model_save\<close>.
\<close>

definition Model_save_args :: "db \<Rightarrow> model \<Rightarrow> obj \<Rightarrow> save_args \<Rightarrow> db \<times> (error + obj)" where
  "Model_save_args d m x a =
     (if force_insert a \<and> (force_update a \<or> update_fields a \<notin> {None, Some []})
      then (d, Inl (ValueError ''Cannot force both insert and updating in model saving.''))
      else
        (case update_fields a of
           None \<Rightarrow>
             if force_update a
             then (if row_id x = PyNone
                   then (d, Inl (ValueError ''Cannot force an update in save() with no primary key.''))
                   else if \<not> is_update d m x then (d, Inl DatabaseError)
                   else Model_save d m x)
             else if force_insert a \<and> is_update d m x then (d, Inl IntegrityError)
             else Model_save d m x
         | Some fs \<Rightarrow>
             if fs = [] then (d, Inr x)
             else if \<exists>f \<in> set fs. f \<notin> set (non_pk_names m)
             then (d, Inl (ValueError ''The following fields do not exist in this model''))
             else if row_id x = PyNone
             then (d, Inl (ValueError ''Cannot force an update in save() with no primary key.''))
             else if \<not> is_update d m x then (d, Inl DatabaseError)
             else (let upd = (\<lambda>r. if row_id r = row_id x then merge_fields m fs x r else r)
                   in if \<forall>r \<in> set (tables d m). row_id r = row_id x \<longrightarrow> db_accepts d m (upd r)
                      then (d\<lparr>tables := (tables d)(m := map upd (tables d m))\<rparr>, Inr x)
                      else (d, Inl IntegrityError))))"

text \<open>\<^verbatim>\<open>Model.objects.create(**kwargs)\<close>: instantiate, then save as an insert.\<close>

definition objects_create :: "db \<Rightarrow> model \<Rightarrow> kwargs \<Rightarrow> db \<times> (error + obj)" where
  "objects_create d m kw =
     (case Model_init m kw of
        Inl e \<Rightarrow> (d, Inl e)
      | Inr x \<Rightarrow> if is_update d m x then (d, Inl IntegrityError) else Model_save d m x)"


subsection \<open>Deleting: \<^verbatim>\<open>Model.delete\<close> and \<^verbatim>\<open>on_delete\<close>\<close>

text \<open>
  Deleting a row collects every row that refers to it through a relation declared
  \<^verbatim>\<open>on_delete=models.CASCADE\<close>, then the rows that refer to those, until nothing
  new is found, and removes them all.
\<close>

type_synonym ref = "model \<times> pyval"

fun cascade_target :: "kind \<Rightarrow> model option" where
  "cascade_target (ForeignKey t CASCADE) = Some t"
| "cascade_target (OneToOneField t CASCADE) = Some t"
| "cascade_target _ = None"

definition cascades :: "ref list \<Rightarrow> model \<Rightarrow> obj \<Rightarrow> bool" where
  "cascades seen m r =
     (\<exists>f \<in> set (meta_fields m).
        case cascade_target (kind f) of
          None \<Rightarrow> False
        | Some t \<Rightarrow>
            (case r (name f) of
               None \<Rightarrow> False
             | Some v \<Rightarrow> v \<noteq> PyNone \<and> (t, v) \<in> set seen))"

definition all_refs :: "db \<Rightarrow> ref list" where
  "all_refs d = concat (map (\<lambda>m. map (\<lambda>r. (m, row_id r)) (tables d m)) all_models)"

definition referrers :: "db \<Rightarrow> ref list \<Rightarrow> ref list" where
  "referrers d seen =
     concat (map (\<lambda>m. map (\<lambda>r. (m, row_id r)) (filter (cascades seen m) (tables d m)))
                 all_models)"

function collect :: "db \<Rightarrow> ref list \<Rightarrow> ref list" where
  "collect d seen =
     (let new = filter (\<lambda>x. x \<notin> set seen) (referrers d seen)
      in if new = [] then seen else collect d (seen @ new))"
  by pat_completeness auto

termination collect
proof (relation "measure (\<lambda>(d, seen). card (set (all_refs d) - set seen))")
  show "wf (measure (\<lambda>(d, seen). card (set (all_refs d) - set seen)))" by simp
next
  fix d :: db and seen new :: "ref list"
  assume new: "new = filter (\<lambda>x. x \<notin> set seen) (referrers d seen)" and ne: "new \<noteq> []"
  have sub: "set (referrers d seen) \<subseteq> set (all_refs d)"
    by (auto simp: referrers_def all_refs_def)
  from ne obtain x where x: "x \<in> set new" by (cases new) auto
  with new sub have x1: "x \<in> set (all_refs d) - set seen" by auto
  from x have x2: "x \<notin> set (all_refs d) - set (seen @ new)" by simp
  have "set (all_refs d) - set (seen @ new) \<subseteq> set (all_refs d) - set seen" by auto
  with x1 x2 have "set (all_refs d) - set (seen @ new) \<subset> set (all_refs d) - set seen"
    by blast
  then have "card (set (all_refs d) - set (seen @ new)) < card (set (all_refs d) - set seen)"
    by (intro psubset_card_mono) simp_all
  then show "((d, seen @ new), (d, seen))
               \<in> measure (\<lambda>(d, seen). card (set (all_refs d) - set seen))"
    by simp
qed

declare collect.simps [simp del]

definition Model_delete :: "db \<Rightarrow> model \<Rightarrow> obj \<Rightarrow> db \<times> (error + unit)" where
  "Model_delete d m inst =
     (if row_id inst = PyNone
      then (d, Inl (ValueError ''object can not be deleted because its id is None''))
      else (let gone = collect d [(m, row_id inst)]
            in (d\<lparr>tables := (\<lambda>m'. filter (\<lambda>r. (m', row_id r) \<notin> set gone) (tables d m'))\<rparr>,
                Inr ())))"

section \<open>UserManager\<close>

text \<open>
  Two helpers of the framework are left open: \<^verbatim>\<open>normalize_email\<close> on a string and
  the password hasher behind \<^verbatim>\<open>set_password\<close>.
\<close>

record framework =
  normalize :: "string \<Rightarrow> string"
  make_password :: "pyval \<Rightarrow> string"

text \<open>
  \<^verbatim>\<open>BaseUserManager.normalize_email\<close> begins with \<^verbatim>\<open>email = email or ""\<close> and then
  calls string methods, which a value that is not a string does not have.
\<close>

definition normalize_email :: "framework \<Rightarrow> pyval \<Rightarrow> error + pyval" where
  "normalize_email fw email =
     (case (if truthy email then email else PyStr []) of
        PyStr s \<Rightarrow> Inr (PyStr (normalize fw s))
      | _ \<Rightarrow> Inl AttributeError)"

definition set_password :: "framework \<Rightarrow> obj \<Rightarrow> pyval \<Rightarrow> obj" where
  "set_password fw user raw = user(''password'' \<mapsto> PyStr (make_password fw raw))"

text \<open>\<^verbatim>\<open>dict.setdefault\<close> and \<^verbatim>\<open>dict.get\<close>.\<close>

definition setdefault :: "kwargs \<Rightarrow> string \<Rightarrow> pyval \<Rightarrow> kwargs" where
  "setdefault kw k v = (if k \<in> set (map fst kw) then kw else kw @ [(k, v)])"

definition dict_get :: "kwargs \<Rightarrow> string \<Rightarrow> pyval" where
  "dict_get kw k = (case map_of kw k of Some v \<Rightarrow> v | None \<Rightarrow> PyNone)"

definition UserManager_private_create_user ::
  "framework \<Rightarrow> db \<Rightarrow> pyval \<Rightarrow> pyval \<Rightarrow> kwargs \<Rightarrow> db \<times> (error + obj)" where
  "UserManager_private_create_user fw d email password extra_fields =
     (if \<not> truthy email then (d, Inl (ValueError ''The given email must be set''))
      else (case normalize_email fw email of
              Inl e \<Rightarrow> (d, Inl e)
            | Inr email' \<Rightarrow>
               (case Model_init User ((''email'', email') # extra_fields) of
                  Inl e \<Rightarrow> (d, Inl e)
                | Inr user \<Rightarrow> Model_save d User (set_password fw user password))))"

definition UserManager_create_user ::
  "framework \<Rightarrow> db \<Rightarrow> pyval \<Rightarrow> pyval \<Rightarrow> kwargs \<Rightarrow> db \<times> (error + obj)" where
  "UserManager_create_user fw d email password extra_fields =
     (let extra1 = setdefault extra_fields ''is_staff'' (PyBool False);
          extra2 = setdefault extra1 ''is_superuser'' (PyBool False)
      in UserManager_private_create_user fw d email password extra2)"

definition UserManager_create_superuser ::
  "framework \<Rightarrow> db \<Rightarrow> pyval \<Rightarrow> pyval \<Rightarrow> kwargs \<Rightarrow> db \<times> (error + obj)" where
  "UserManager_create_superuser fw d email password extra_fields =
     (let extra1 = setdefault extra_fields ''is_staff'' (PyBool True);
          extra2 = setdefault extra1 ''is_superuser'' (PyBool True)
      in if dict_get extra2 ''is_staff'' \<noteq> PyBool True
         then (d, Inl (ValueError ''Superuser must have is_staff=True.''))
         else if dict_get extra2 ''is_superuser'' \<noteq> PyBool True
         then (d, Inl (ValueError ''Superuser must have is_superuser=True.''))
         else UserManager_private_create_user fw d email password extra2)"

section \<open>ConfirmEmailToken\<close>

text \<open>
  \<^verbatim>\<open>ConfirmEmailToken.save(self, *args, **kwargs)\<close>. The key comes from
  \<^verbatim>\<open>get_token_generator().generate_token()\<close> of another package; \<open>generated\<close> is
  the string that call returns when it is made. The arguments \<open>a\<close> go to the inherited
  save as they are.
\<close>

definition ConfirmEmailToken_save ::
  "string \<Rightarrow> db \<Rightarrow> obj \<Rightarrow> save_args \<Rightarrow> db \<times> (error + obj)" where
  "ConfirmEmailToken_save generated d self a =
     (case self ''key'' of
        None \<Rightarrow> (d, Inl AttributeError)
      | Some k \<Rightarrow>
          Model_save_args d ConfirmEmailToken
            (if \<not> truthy k then self(''key'' \<mapsto> PyStr generated) else self) a)"

section \<open>OrderItem\<close>

text \<open>
  \<^verbatim>\<open>OrderItem.save(self, *args, **kwargs)\<close>:
  \<^verbatim>\<open>self.total_amount = self.price * self.quantity\<close>, then the inherited save with
  the arguments \<open>a\<close> as they are.
\<close>

definition OrderItem_save :: "db \<Rightarrow> obj \<Rightarrow> save_args \<Rightarrow> db \<times> (error + obj)" where
  "OrderItem_save d self a =
     (case (self ''price'', self ''quantity'') of
        (Some p, Some q) \<Rightarrow>
          (case py_mul p q of
             Inl e \<Rightarrow> (d, Inl e)
           | Inr t \<Rightarrow> Model_save_args d OrderItem (self(''total_amount'' \<mapsto> t)) a)
      | _ \<Rightarrow> (d, Inl AttributeError))"


section \<open>A store to run the operations on\<close>


definition example_user :: obj where
  "example_user =
     [''id'' \<mapsto> PyInt 1, ''password'' \<mapsto> PyStr ''pw1'', ''is_superuser'' \<mapsto> PyBool False,
      ''username'' \<mapsto> PyStr ''buyer'', ''first_name'' \<mapsto> PyStr [], ''last_name'' \<mapsto> PyStr [],
      ''is_staff'' \<mapsto> PyBool False, ''is_active'' \<mapsto> PyBool True,
      ''email'' \<mapsto> PyStr ''buyer@example.com'', ''organization'' \<mapsto> PyNone,
      ''position'' \<mapsto> PyNone, ''type'' \<mapsto> PyStr ''buyer'']"

definition example_owner :: obj where
  "example_owner =
     [''id'' \<mapsto> PyInt 2, ''password'' \<mapsto> PyStr ''pw2'', ''is_superuser'' \<mapsto> PyBool False,
      ''username'' \<mapsto> PyStr ''owner'', ''first_name'' \<mapsto> PyStr [], ''last_name'' \<mapsto> PyStr [],
      ''is_staff'' \<mapsto> PyBool False, ''is_active'' \<mapsto> PyBool True,
      ''email'' \<mapsto> PyStr ''owner@example.com'', ''organization'' \<mapsto> PyNone,
      ''position'' \<mapsto> PyNone, ''type'' \<mapsto> PyStr ''shop'']"

definition example_token :: obj where
  "example_token =
     [''id'' \<mapsto> PyInt 1, ''user'' \<mapsto> PyInt 1, ''created_at'' \<mapsto> PyInt 3,
      ''key'' \<mapsto> PyStr ''0a1b2c'']"

definition example_contact :: obj where
  "example_contact =
     [''id'' \<mapsto> PyInt 1, ''user'' \<mapsto> PyInt 1, ''city'' \<mapsto> PyStr ''Kazan'',
      ''street'' \<mapsto> PyStr [], ''house'' \<mapsto> PyStr [], ''apartment'' \<mapsto> PyStr [],
      ''email'' \<mapsto> PyStr [], ''phone'' \<mapsto> PyStr ''+70000000000'',
      ''work_phone'' \<mapsto> PyStr []]"

definition example_shop :: obj where
  "example_shop =
     [''id'' \<mapsto> PyInt 1, ''name'' \<mapsto> PyStr ''shop'', ''url'' \<mapsto> PyNone,
      ''file_name'' \<mapsto> PyNone, ''user'' \<mapsto> PyInt 2, ''state'' \<mapsto> PyBool True]"

definition example_product_info :: obj where
  "example_product_info =
     [''id'' \<mapsto> PyInt 1, ''model'' \<mapsto> PyStr ''m1'', ''quantity'' \<mapsto> PyInt 10,
      ''price'' \<mapsto> PyInt 150, ''price_rrc'' \<mapsto> PyInt 160, ''product'' \<mapsto> PyInt 1,
      ''shop'' \<mapsto> PyInt 1]"

definition example_product_parameter :: obj where
  "example_product_parameter =
     [''id'' \<mapsto> PyInt 1, ''product_info'' \<mapsto> PyInt 1, ''parameter'' \<mapsto> PyInt 1,
      ''value'' \<mapsto> PyStr ''red'']"

definition example_order :: obj where
  "example_order =
     [''id'' \<mapsto> PyInt 1, ''user'' \<mapsto> PyInt 1, ''contact'' \<mapsto> PyInt 1,
      ''dt'' \<mapsto> PyInt 4, ''status'' \<mapsto> PyStr ''basket'']"

definition example_db :: db where
  "example_db =
     \<lparr>tables = (\<lambda>m. [])
        (User := [example_user, example_owner],
         ConfirmEmailToken := [example_token],
         Contact := [example_contact],
         Shop := [example_shop],
         Category := [[''id'' \<mapsto> PyInt 1, ''name'' \<mapsto> PyStr ''phones'']],
         Category_shops := [[''id'' \<mapsto> PyInt 1, ''category'' \<mapsto> PyInt 1, ''shop'' \<mapsto> PyInt 1]],
         Product := [[''id'' \<mapsto> PyInt 1, ''name'' \<mapsto> PyStr ''phone'', ''category'' \<mapsto> PyInt 1]],
         ProductInfo := [example_product_info],
         Parameter := [[''id'' \<mapsto> PyInt 1, ''name'' \<mapsto> PyStr ''colour'']],
         ProductParameter := [example_product_parameter],
         Order := [example_order]),
      clock = 5\<rparr>"

text \<open>\<^verbatim>\<open>OrderItem(order=1, product_info=1, quantity=3, price=150)\<close>, not yet saved.\<close>

definition example_item :: obj where
  "example_item =
     [''id'' \<mapsto> PyNone, ''order'' \<mapsto> PyInt 1, ''product_info'' \<mapsto> PyInt 1,
      ''quantity'' \<mapsto> PyInt 3, ''price'' \<mapsto> PyInt 150, ''total_amount'' \<mapsto> PyInt 0]"

text \<open>The example store after the example item has been saved once.\<close>

definition example_db_with_item :: db where
  "example_db_with_item =
     write_row example_db OrderItem
       (example_item(''id'' \<mapsto> PyInt 1, ''total_amount'' \<mapsto> PyInt 450))"

text \<open>Reading an attribute of the instance an operation returns.\<close>

definition attr_of :: "string \<Rightarrow> error + obj \<Rightarrow> error + pyval option" where
  "attr_of k res = (case res of Inl e \<Rightarrow> Inl e | Inr x \<Rightarrow> Inr (x k))"

definition result_attr :: "string \<Rightarrow> db \<times> (error + obj) \<Rightarrow> error + pyval option" where
  "result_attr k res = attr_of k (snd res)"


text \<open>A framework to run the manager with: emails are kept as they are.\<close>

definition example_fw :: framework where
  "example_fw = \<lparr>normalize = (\<lambda>s. s), make_password = (\<lambda>raw. ''hashed'')\<rparr>"

text \<open>An unsaved token of the buyer with key \<open>k\<close>.\<close>

definition example_new_token :: "pyval \<Rightarrow> obj" where
  "example_new_token k =
     [''id'' \<mapsto> PyNone, ''user'' \<mapsto> PyInt 1, ''created_at'' \<mapsto> PyNone, ''key'' \<mapsto> k]"

text \<open>Whether an operation returned an instance rather than raising.\<close>

definition accepted :: "db \<times> (error + obj) \<Rightarrow> bool" where
  "accepted res = (case snd res of Inl e \<Rightarrow> False | Inr x \<Rightarrow> True)"

section \<open>Properties of the store\<close>

lemmas schema_defs =
  User_fields_def ConfirmEmailToken_fields_def Contact_fields_def Shop_fields_def
  Category_fields_def Category_shops_fields_def Product_fields_def ProductInfo_fields_def
  Parameter_fields_def ProductParameter_fields_def Order_fields_def OrderItem_fields_def
  id_field_def fld_def

lemmas example_defs =
  example_db_def example_user_def example_owner_def example_token_def example_contact_def
  example_shop_def example_product_info_def example_product_parameter_def example_order_def
  example_item_def

lemmas store_defs =
  db_accepts_def not_null_ok_def check_ok_def fk_ok_def conflicts_def write_row_def
  pre_save_def is_update_def row_id_def next_id_def int_ids_def

lemma fold_max_ge: "(a::int) \<le> fold max xs a"
proof (induction xs arbitrary: a)
  case Nil
  then show ?case by simp
next
  case (Cons x xs)
  have "a \<le> max x a" by simp
  also have "max x a \<le> fold max xs (max x a)" by (rule Cons.IH)
  finally show ?case by simp
qed

lemma fold_max_mem: "(n::int) \<in> set xs \<Longrightarrow> n \<le> fold max xs a"
proof (induction xs arbitrary: a)
  case Nil
  then show ?case by simp
next
  case (Cons x xs)
  show ?case
  proof (cases "n = x")
    case True
    have "max x a \<le> fold max xs (max x a)" by (rule fold_max_ge)
    with True show ?thesis by simp
  next
    case False
    with Cons show ?thesis by simp
  qed
qed

lemma int_ids_mem: "r \<in> set rows \<Longrightarrow> row_id r = PyInt n \<Longrightarrow> n \<in> set (int_ids rows)"
  by (auto simp: int_ids_def intro!: bexI[of _ r])

text \<open>The key assigned on insert is not in use.\<close>

lemma next_id_fresh: "PyInt (next_id rows) \<notin> set (map row_id rows)"
proof
  assume "PyInt (next_id rows) \<in> set (map row_id rows)"
  then obtain r where r: "r \<in> set rows" "row_id r = PyInt (next_id rows)" by auto
  then have "next_id rows \<in> set (int_ids rows)" by (rule int_ids_mem)
  then have "next_id rows \<le> fold max (int_ids rows) 0" by (rule fold_max_mem)
  then show False by (simp add: next_id_def)
qed

text \<open>A rejected save raises IntegrityError and leaves the store as it was.\<close>

lemma Model_save_failure:
  "Model_save d m x = (d', Inl e) \<Longrightarrow> d' = d \<and> e = IntegrityError"
  by (auto simp: Model_save_def Let_def split: if_splits)

lemma Model_save_success:
  "Model_save d m x = (d', Inr y) \<Longrightarrow>
     y = pre_save d m x \<and> db_accepts d m y \<and> d' = write_row d m y"
  by (auto simp: Model_save_def Let_def split: if_splits)

lemma write_row_mem: "y \<in> set (tables (write_row d m y) m)"
  by (auto simp: write_row_def)

lemma write_row_same_id:
  "r \<in> set (tables (write_row d m y) m) \<Longrightarrow> row_id r = row_id y \<Longrightarrow> r = y"
proof (cases "row_id y \<in> set (map row_id (tables d m))")
  case True
  assume "r \<in> set (tables (write_row d m y) m)" "row_id r = row_id y"
  with True show ?thesis by (auto simp: write_row_def split: if_splits)
next
  case False
  assume a: "r \<in> set (tables (write_row d m y) m)" "row_id r = row_id y"
  have "r \<notin> set (tables d m)"
  proof
    assume "r \<in> set (tables d m)"
    then have "row_id r \<in> row_id ` set (tables d m)" by (rule imageI)
    with False a(2) show False by simp
  qed
  with False a(1) show ?thesis by (simp add: write_row_def)
qed

lemma pre_save_attr:
  "k \<noteq> ''id'' \<Longrightarrow> k \<notin> set (map name (filter auto_now_add (meta_fields m))) \<Longrightarrow>
     pre_save d m x k = x k"
  by (simp add: pre_save_def)

section \<open>Saving with arguments\<close>

lemma Model_save_no_args: "Model_save_args d m x no_args = Model_save d m x"
  by (simp add: Model_save_args_def no_args_def)

text \<open>Whatever the arguments, a save that raises leaves the store as it was.\<close>

lemma Model_save_args_failure: "Model_save_args d m x a = (d', Inl e) \<Longrightarrow> d' = d"
proof (cases "update_fields a")
  case None
  assume "Model_save_args d m x a = (d', Inl e)"
  with None show ?thesis
    by (auto simp: Model_save_args_def split: if_splits dest: Model_save_failure)
next
  case (Some fs)
  assume "Model_save_args d m x a = (d', Inl e)"
  with Some show ?thesis
    by (simp add: Model_save_args_def Let_def split: if_splits)
qed

text \<open>Without \<^verbatim>\<open>update_fields\<close>, a save that goes through is the plain save.\<close>

lemma Model_save_args_full:
  assumes "update_fields a = None" and "Model_save_args d m x a = (d', Inr y)"
  shows "Model_save d m x = (d', Inr y)"
  using assms by (simp add: Model_save_args_def split: if_splits)

text \<open>
  With \<^verbatim>\<open>update_fields\<close>, a save that goes through returns the instance as it is and
  writes either nothing or the named columns of the rows with its key.
\<close>

lemma Model_save_args_partial:
  assumes "update_fields a = Some fs" and "Model_save_args d m x a = (d', Inr y)"
  shows "y = x \<and>
         (fs = [] \<and> d' = d \<or>
          fs \<noteq> [] \<and> row_id x \<in> set (map row_id (tables d m)) \<and>
          tables d' m =
            map (\<lambda>r. if row_id r = row_id x then merge_fields m fs x r else r) (tables d m))"
  using assms
  by (simp add: Model_save_args_def Let_def is_update_def split: if_splits) auto

lemma merge_fields_row_id:
  "row_id r = row_id x \<Longrightarrow> row_id (merge_fields m fs x r) = row_id x"
  by (simp add: merge_fields_def row_id_def)

lemma Model_save_args_attr:
  assumes "Model_save_args d m x a = (d', Inr y)" and "k \<noteq> ''id''"
    and "k \<notin> set (map name (filter auto_now_add (meta_fields m)))"
  shows "y k = x k"
proof (cases "update_fields a")
  case None
  from Model_save_success[OF Model_save_args_full[OF None assms(1)]]
  have "y = pre_save d m x" by blast
  with assms(2,3) show ?thesis by (simp add: pre_save_attr)
next
  case (Some fs)
  from Model_save_args_partial[OF Some assms(1)] show ?thesis by simp
qed

section \<open>Line-item totals\<close>







section \<open>Cascading deletes\<close>

lemma collect_mono: "set seen \<subseteq> set (collect d seen)"
proof (induction d seen rule: collect.induct)
  case (1 d seen)
  show ?case
  proof (cases "filter (\<lambda>x. x \<notin> set seen) (referrers d seen) = []")
    case True
    then show ?thesis by (subst collect.simps) (simp add: Let_def)
  next
    case False
    from 1[OF refl False]
    have "set (seen @ filter (\<lambda>x. x \<notin> set seen) (referrers d seen)) \<subseteq>
            set (collect d (seen @ filter (\<lambda>x. x \<notin> set seen) (referrers d seen)))" .
    with False show ?thesis by (subst collect.simps) (auto simp add: Let_def)
  qed
qed

text \<open>What is collected is closed: every row that refers to a collected row is collected.\<close>

lemma collect_closed: "set (referrers d (collect d seen)) \<subseteq> set (collect d seen)"
proof (induction d seen rule: collect.induct)
  case (1 d seen)
  show ?case
  proof (cases "filter (\<lambda>x. x \<notin> set seen) (referrers d seen) = []")
    case True
    then have c: "collect d seen = seen" by (subst collect.simps) (simp add: Let_def)
    from True have "set (referrers d seen) \<subseteq> set seen" by (auto simp: filter_empty_conv)
    with c show ?thesis by simp
  next
    case False
    then have c: "collect d seen =
                    collect d (seen @ filter (\<lambda>x. x \<notin> set seen) (referrers d seen))"
      by (subst collect.simps) (simp add: Let_def)
    from 1[OF refl False] c show ?thesis by simp
  qed
qed

lemma all_models_complete: "m \<in> set all_models"
  by (cases m) (simp_all add: all_models_def)

lemma referrers_mem:
  "cascades seen m r \<Longrightarrow> r \<in> set (tables d m) \<Longrightarrow> (m, row_id r) \<in> set (referrers d seen)"
  using all_models_complete[of m] by (auto simp: referrers_def)

lemma user_relation_cascades:
  assumes "m \<in> {Contact, Order, ConfirmEmailToken}" and "r ''user'' = Some v" and "v \<noteq> PyNone"
    and "(User, v) \<in> set seen"
  shows "cascades seen m r"
proof -
  have "\<exists>f \<in> set (meta_fields m). name f = ''user'' \<and> cascade_target (kind f) = Some User"
  proof -
    let ?f = "fld ''user'' (ForeignKey User CASCADE)"
    have "?f \<in> set (meta_fields m)"
      using assms(1) by (auto simp: Contact_fields_def Order_fields_def ConfirmEmailToken_fields_def)
    moreover have "name ?f = ''user''" "cascade_target (kind ?f) = Some User"
      by (simp_all add: fld_def)
    ultimately show ?thesis by blast
  qed
  then obtain f where "f \<in> set (meta_fields m)" "name f = ''user''"
    "cascade_target (kind f) = Some User"
    by blast
  with assms(2-) show ?thesis unfolding cascades_def by (intro bexI[of _ f]) simp_all
qed

text \<open>
  C6. Deleting a stored user (one with a primary key) is never refused, and afterwards
  no Contact, Order or ConfirmEmailToken row of that user is left, nor the user's own
  row; the delete adds nothing to any table.
\<close>

theorem User_delete_cascades:
  assumes "row_id u \<noteq> PyNone"
  shows "\<exists>d'. Model_delete d User u = (d', Inr ()) \<and>
           (\<forall>m \<in> {Contact, Order, ConfirmEmailToken}.
              \<forall>r \<in> set (tables d' m). r ''user'' \<noteq> Some (row_id u)) \<and>
           (\<forall>r \<in> set (tables d' User). row_id r \<noteq> row_id u) \<and>
           (\<forall>m. set (tables d' m) \<subseteq> set (tables d m))"
proof -
  define gone where "gone = collect d [(User, row_id u)]"
  define d' where
    "d' = d\<lparr>tables := (\<lambda>m'. filter (\<lambda>r. (m', row_id r) \<notin> set gone) (tables d m'))\<rparr>"
  have del: "Model_delete d User u = (d', Inr ())"
    using assms by (simp add: Model_delete_def Let_def gone_def d'_def)
  have self: "(User, row_id u) \<in> set gone"
    using collect_mono[of "[(User, row_id u)]" d] by (simp add: gone_def)
  have closed: "set (referrers d gone) \<subseteq> set gone"
    unfolding gone_def by (rule collect_closed)
  have dep: "r ''user'' \<noteq> Some (row_id u)"
    if m: "m \<in> {Contact, Order, ConfirmEmailToken}" and r: "r \<in> set (tables d' m)" for m r
  proof
    assume u: "r ''user'' = Some (row_id u)"
    from r have rd: "r \<in> set (tables d m)" and keep: "(m, row_id r) \<notin> set gone"
      by (simp_all add: d'_def)
    from m u assms self have "cascades gone m r" by (rule user_relation_cascades)
    then have "(m, row_id r) \<in> set (referrers d gone)" using rd by (rule referrers_mem)
    with closed keep show False by blast
  qed
  have usr: "\<forall>r \<in> set (tables d' User). row_id r \<noteq> row_id u"
    using self by (auto simp: d'_def)
  have sub: "\<forall>m. set (tables d' m) \<subseteq> set (tables d m)" by (auto simp: d'_def)
  from del dep usr sub show ?thesis by blast
qed

text \<open>
  In the example store the buyer has one contact, one order and one token; after
  deleting the buyer none is left.
\<close>

theorem User_delete_cascades_witness:
  "row_id example_user \<noteq> PyNone \<and>
   map (\<lambda>m. length (filter (\<lambda>r. r ''user'' = Some (PyInt 1)) (tables example_db m)))
       [Contact, Order, ConfirmEmailToken] = [1, 1, 1] \<and>
   (\<exists>d'. Model_delete example_db User example_user = (d', Inr ()) \<and>
      map (\<lambda>m. length (filter (\<lambda>r. r ''user'' = Some (PyInt 1)) (tables d' m)))
          [Contact, Order, ConfirmEmailToken] = [0, 0, 0])"
proof -
  have h: "row_id example_user \<noteq> PyNone" by (simp add: row_id_def example_user_def)
  have before:
    "map (\<lambda>m. length (filter (\<lambda>r. r ''user'' = Some (PyInt 1)) (tables example_db m)))
       [Contact, Order, ConfirmEmailToken] = [1, 1, 1]"
    by (simp add: example_defs)
  have id: "row_id example_user = PyInt 1" by (simp add: row_id_def example_user_def)
  from User_delete_cascades[OF h, of example_db] obtain d' where
    d: "Model_delete example_db User example_user = (d', Inr ())" and
    g: "\<forall>m \<in> {Contact, Order, ConfirmEmailToken}.
              \<forall>r \<in> set (tables d' m). r ''user'' \<noteq> Some (row_id example_user)"
    by blast
  from g have "\<forall>m \<in> {Contact, Order, ConfirmEmailToken}.
                 filter (\<lambda>r. r ''user'' = Some (PyInt 1)) (tables d' m) = []"
    unfolding id by (simp add: filter_empty_conv)
  with h before d show ?thesis by simp
qed

section \<open>Composite uniqueness\<close>

lemma id_not_auto: "''id'' \<notin> set (map name (filter auto_now_add (meta_fields m)))"
  by (cases m) (simp_all add: schema_defs)

lemma row_id_pre_save:
  "row_id (pre_save d m x) =
     (if is_update d m x \<or> row_id x \<noteq> PyNone then row_id x else PyInt (next_id (tables d m)))"
  using id_not_auto[of m] by (auto simp: pre_save_def row_id_def)

lemma row_id_pre_save_neq:
  assumes "old \<in> set (tables d m)" and "row_id new = PyNone \<or> row_id new \<noteq> row_id old"
  shows "row_id old \<noteq> row_id (pre_save d m new)"
proof (cases "row_id new = PyNone")
  case True
  then have "row_id (pre_save d m new) = PyInt (next_id (tables d m))"
    by (simp add: row_id_pre_save is_update_def)
  moreover from assms(1) have "row_id old \<in> set (map row_id (tables d m))" by simp
  ultimately show ?thesis using next_id_fresh[of "tables d m"] by metis
next
  case False
  then have "row_id (pre_save d m new) = row_id new" by (simp add: row_id_pre_save)
  with False assms(2) show ?thesis by simp
qed

text \<open>
  A second row that agrees with a stored row on all columns of a uniqueness constraint
  over NOT NULL columns is rejected, whether it arrives as an insert or as an update of
  another row.
\<close>

lemma unique_violation:
  assumes fs: "fs \<in> set (unique_sets m)"
    and old: "old \<in> set (tables d m)"
    and same: "\<forall>f \<in> set fs. new f = old f"
    and second: "row_id new = PyNone \<or> row_id new \<noteq> row_id old"
    and nn: "\<forall>f \<in> set fs. \<exists>fd \<in> set (meta_fields m). name fd = f \<and> \<not> null fd"
    and plain: "\<forall>f \<in> set fs.
                  f \<noteq> ''id'' \<and> f \<notin> set (map name (filter auto_now_add (meta_fields m)))"
  shows "Model_save d m new = (d, Inl IntegrityError)"
proof -
  let ?y = "pre_save d m new"
  have eq: "?y f = new f" if "f \<in> set fs" for f
    using plain that by (simp add: pre_save_attr)
  have "\<not> db_accepts d m ?y"
  proof (cases "not_null_ok m ?y")
    case False
    then show ?thesis by (simp add: db_accepts_def)
  next
    case True
    have "?y f = old f \<and> ?y f \<noteq> None \<and> ?y f \<noteq> Some PyNone" if f: "f \<in> set fs" for f
    proof -
      from nn f obtain fd where "fd \<in> set (meta_fields m)" "name fd = f" "\<not> null fd" by blast
      with True have "?y f \<noteq> None \<and> ?y f \<noteq> Some PyNone" by (auto simp: not_null_ok_def)
      with eq[OF f] same f show ?thesis by simp
    qed
    with fs row_id_pre_save_neq[OF old second] have "conflicts m ?y old"
      unfolding conflicts_def by blast
    with old show ?thesis unfolding db_accepts_def by blast
  qed
  then show ?thesis by (simp add: Model_save_def Let_def)
qed

lemma unique_sets_ProductInfo: "unique_sets ProductInfo = [[''product'', ''shop'']]"
  by (simp add: unique_sets_def resolve_def attname_def schema_defs)

lemma unique_sets_ProductParameter:
  "unique_sets ProductParameter = [[''product_info'', ''parameter'']]"
  by (simp add: unique_sets_def resolve_def attname_def schema_defs)

text \<open>The constraint of OrderItem names the column \<^verbatim>\<open>order_id\<close>, which is the relation \<^verbatim>\<open>order\<close>.\<close>

lemma unique_sets_OrderItem: "unique_sets OrderItem = [[''order'', ''product_info'']]"
  by (simp add: unique_sets_def resolve_def attname_def schema_defs)

lemma py_mul_error: "py_mul a b = Inl e \<Longrightarrow> e = TypeError"
  by (auto simp: py_mul_def repeat_def split: pyval.splits option.splits if_splits)

lemma OrderItem_save_unfold:
  "(\<exists>e. OrderItem_save d self a = (d, Inl e) \<and> e \<noteq> IntegrityError) \<or>
   (\<exists>t. OrderItem_save d self a = Model_save_args d OrderItem (self(''total_amount'' \<mapsto> t)) a)"
proof (cases "self ''price''")
  case None
  then show ?thesis by (simp add: OrderItem_save_def)
next
  case p: (Some p)
  show ?thesis
  proof (cases "self ''quantity''")
    case None
    with p show ?thesis by (simp add: OrderItem_save_def)
  next
    case q: (Some q)
    show ?thesis
    proof (cases "py_mul p q")
      case (Inl e)
      then have "e = TypeError" by (rule py_mul_error)
      with Inl p q show ?thesis by (simp add: OrderItem_save_def)
    next
      case (Inr t)
      with p q show ?thesis by (auto simp add: OrderItem_save_def)
    qed
  qed
qed

text \<open>
  C2. In every store state, saving a second row (an unsaved instance, or one with a
  primary key other than the stored row's) that repeats the (product, shop) pair of a
  stored ProductInfo, the (product_info, parameter) pair of a stored ProductParameter,
  or the (order, product_info) pair of a stored OrderItem raises IntegrityError and
  returns the store unchanged, so the stored row is neither replaced nor joined by
  another. For OrderItem this is shown for the inherited save and for
  \<^verbatim>\<open>OrderItem.save()\<close>, which fails in every case and with IntegrityError whenever
  price and quantity are integers.
\<close>

theorem duplicate_rows_rejected:
  assumes "old \<in> set (tables d m)" and "row_id new = PyNone \<or> row_id new \<noteq> row_id old"
  shows "(m = ProductInfo \<and> new ''product'' = old ''product'' \<and> new ''shop'' = old ''shop''
            \<longrightarrow> Model_save d m new = (d, Inl IntegrityError)) \<and>
         (m = ProductParameter \<and> new ''product_info'' = old ''product_info'' \<and>
            new ''parameter'' = old ''parameter''
            \<longrightarrow> Model_save d m new = (d, Inl IntegrityError)) \<and>
         (m = OrderItem \<and> new ''order'' = old ''order'' \<and>
            new ''product_info'' = old ''product_info''
            \<longrightarrow> Model_save d m new = (d, Inl IntegrityError) \<and>
                (\<exists>e. OrderItem_save d new no_args = (d, Inl e)) \<and>
                ((\<exists>p q. new ''price'' = Some (PyInt p) \<and> new ''quantity'' = Some (PyInt q))
                   \<longrightarrow> OrderItem_save d new no_args = (d, Inl IntegrityError)))"
proof -
  have c1: "Model_save d m new = (d, Inl IntegrityError)"
    if "m = ProductInfo" "new ''product'' = old ''product''" "new ''shop'' = old ''shop''"
    using assms that
    by (intro unique_violation[where fs = "[''product'', ''shop'']"])
       (simp_all add: unique_sets_ProductInfo ProductInfo_fields_def id_field_def fld_def)
  have c2: "Model_save d m new = (d, Inl IntegrityError)"
    if "m = ProductParameter" "new ''product_info'' = old ''product_info''"
       "new ''parameter'' = old ''parameter''"
    using assms that
    by (intro unique_violation[where fs = "[''product_info'', ''parameter'']"])
       (simp_all add: unique_sets_ProductParameter ProductParameter_fields_def id_field_def fld_def)
  have c3: "Model_save d m new = (d, Inl IntegrityError) \<and>
            (\<exists>e. OrderItem_save d new no_args = (d, Inl e)) \<and>
            ((\<exists>p q. new ''price'' = Some (PyInt p) \<and> new ''quantity'' = Some (PyInt q))
                \<longrightarrow> OrderItem_save d new no_args = (d, Inl IntegrityError))"
    if m: "m = OrderItem" and e: "new ''order'' = old ''order''"
       "new ''product_info'' = old ''product_info''"
  proof -
    have gen: "Model_save d m x = (d, Inl IntegrityError)"
      if "x ''order'' = new ''order''" "x ''product_info'' = new ''product_info''"
         "row_id x = row_id new" for x
      using assms m e that
      by (intro unique_violation[where fs = "[''order'', ''product_info'']" and old = old])
         (simp_all add: unique_sets_OrderItem OrderItem_fields_def id_field_def fld_def)
    have direct: "Model_save d m new = (d, Inl IntegrityError)" by (rule gen) simp_all
    have upd: "Model_save d OrderItem (new(''total_amount'' \<mapsto> t)) = (d, Inl IntegrityError)"
      for t
      using gen[of "new(''total_amount'' \<mapsto> t)"] m by (simp add: row_id_def)
    from OrderItem_save_unfold[of d new no_args] upd
    have any: "\<exists>e. OrderItem_save d new no_args = (d, Inl e)"
      by (auto simp: Model_save_no_args)
    have ints: "(\<exists>p q. new ''price'' = Some (PyInt p) \<and> new ''quantity'' = Some (PyInt q))
                   \<longrightarrow> OrderItem_save d new no_args = (d, Inl IntegrityError)"
      using upd by (auto simp: OrderItem_save_def py_mul_def Model_save_no_args)
    from direct any ints show ?thesis by blast
  qed
  from c1 c2 c3 show ?thesis by blast
qed

text \<open>
  In the example store: a second listing of product 1 in shop 1, a second value of
  parameter 1 for listing 1, and a second line of listing 1 in order 1 are all rejected.
\<close>

theorem duplicate_rows_rejected_witness:
  "example_product_info \<in> set (tables example_db ProductInfo) \<and>
   Model_save example_db ProductInfo
      (example_product_info(''id'' \<mapsto> PyNone, ''price'' \<mapsto> PyInt 1))
     = (example_db, Inl IntegrityError) \<and>
   example_product_parameter \<in> set (tables example_db ProductParameter) \<and>
   Model_save example_db ProductParameter
      (example_product_parameter(''id'' \<mapsto> PyNone, ''value'' \<mapsto> PyStr ''blue''))
     = (example_db, Inl IntegrityError) \<and>
   example_item(''id'' \<mapsto> PyInt 1, ''total_amount'' \<mapsto> PyInt 450)
     \<in> set (tables example_db_with_item OrderItem) \<and>
   OrderItem_save example_db_with_item (example_item(''quantity'' \<mapsto> PyInt 9)) no_args
     = (example_db_with_item, Inl IntegrityError)"
proof -
  let ?pi = "example_product_info(''id'' \<mapsto> PyNone, ''price'' \<mapsto> PyInt 1)"
  let ?pp = "example_product_parameter(''id'' \<mapsto> PyNone, ''value'' \<mapsto> PyStr ''blue'')"
  let ?old = "example_item(''id'' \<mapsto> PyInt 1, ''total_amount'' \<mapsto> PyInt 450)"
  let ?oi = "example_item(''quantity'' \<mapsto> PyInt 9)"
  have m1: "example_product_info \<in> set (tables example_db ProductInfo)"
    by (simp add: example_db_def)
  have m2: "example_product_parameter \<in> set (tables example_db ProductParameter)"
    by (simp add: example_db_def)
  have m3: "?old \<in> set (tables example_db_with_item OrderItem)"
    unfolding example_db_with_item_def by (rule write_row_mem)
  have n1: "row_id ?pi = PyNone \<or> row_id ?pi \<noteq> row_id example_product_info"
    by (simp add: row_id_def)
  have n2: "row_id ?pp = PyNone \<or> row_id ?pp \<noteq> row_id example_product_parameter"
    by (simp add: row_id_def)
  have n3: "row_id ?oi = PyNone \<or> row_id ?oi \<noteq> row_id ?old"
    by (simp add: row_id_def example_item_def)
  from duplicate_rows_rejected[OF m1 n1]
  have r1: "Model_save example_db ProductInfo ?pi = (example_db, Inl IntegrityError)" by simp
  from duplicate_rows_rejected[OF m2 n2]
  have r2: "Model_save example_db ProductParameter ?pp = (example_db, Inl IntegrityError)"
    by simp
  from duplicate_rows_rejected[OF m3 n3]
  have r3: "OrderItem_save example_db_with_item ?oi no_args
              = (example_db_with_item, Inl IntegrityError)"
    by (simp add: example_item_def)
  from m1 r1 m2 r2 m3 r3 show ?thesis by blast
qed

section \<open>Order status\<close>

lemma distinct_names: "distinct (map name (meta_fields m))"
  by (cases m) (simp_all add: schema_defs)

lemma Model_init_attr:
  assumes "Model_init m kw = Inr x" and "f \<in> set (meta_fields m)"
  shows "x (name f) = Some (init_value kw f)"
proof -
  from assms(1) have x: "x = map_of (map (\<lambda>f. (name f, init_value kw f)) (meta_fields m))"
    by (simp add: Model_init_def split: if_splits)
  have "distinct (map fst (map (\<lambda>f. (name f, init_value kw f)) (meta_fields m)))"
    using distinct_names[of m] by (simp add: comp_def)
  moreover
  have "(name f, init_value kw f) \<in> set (map (\<lambda>f. (name f, init_value kw f)) (meta_fields m))"
    using assms(2) by auto
  ultimately show ?thesis unfolding x by (rule map_of_is_SomeI)
qed

lemma status_field:
  "(fld ''status'' CharField)\<lparr>max_length := Some 15, choices := STATUS_CHOICES\<rparr>
     \<in> set (meta_fields Order)"
  by (simp add: Order_fields_def)

lemma Order_init_status:
  "Model_init Order kw = Inr x \<Longrightarrow>
     x ''status'' = Some (case map_of kw ''status'' of Some v \<Rightarrow> v | None \<Rightarrow> PyStr [])"
  using Model_init_attr[OF _ status_field, of kw x]
  by (simp add: fld_def init_value_def attname_def get_default_def empty_strings_allowed_def
           split: option.splits)

text \<open>
  C3, as the code has it. An Order made without a \<^verbatim>\<open>status\<close> keyword has the empty
  string as its status, in memory and in the stored row: the field declares no default,
  and \<^verbatim>\<open>basket\<close> is only the first of its choices.
\<close>

theorem Order_default_status:
  assumes "''status'' \<notin> set (map fst kw)"
  shows "(\<forall>x. Model_init Order kw = Inr x \<longrightarrow> x ''status'' = Some (PyStr [])) \<and>
         (\<forall>d d' x. objects_create d Order kw = (d', Inr x) \<longrightarrow>
             x ''status'' = Some (PyStr []) \<and> x \<in> set (tables d' Order))"
proof -
  from assms have none: "map_of kw ''status'' = None" by (simp add: map_of_eq_None_iff)
  have i: "x ''status'' = Some (PyStr [])" if "Model_init Order kw = Inr x" for x
    using Order_init_status[OF that] none by simp
  have c: "x ''status'' = Some (PyStr []) \<and> x \<in> set (tables d' Order)"
    if "objects_create d Order kw = (d', Inr x)" for d d' x
  proof -
    from that obtain x0 where x0: "Model_init Order kw = Inr x0"
      and s: "Model_save d Order x0 = (d', Inr x)"
      by (auto simp: objects_create_def split: sum.splits if_splits)
    note r = Model_save_success[OF s]
    have "pre_save d Order x0 ''status'' = x0 ''status''"
      by (rule pre_save_attr) (simp_all add: Order_fields_def id_field_def fld_def)
    with r i[OF x0] show ?thesis by (simp add: write_row_mem)
  qed
  from i c show ?thesis by blast
qed

text \<open>
  The claim as stated fails: \<^verbatim>\<open>Order.objects.create(user=u)\<close> for the stored user 1
  (a relation is held as the key of the related row) succeeds in the example store, and
  the order it returns has status \<^verbatim>\<open>''\<close>, not \<^verbatim>\<open>'basket'\<close>.
\<close>

theorem Order_default_status_counterexample:
  "''status'' \<notin> set (map fst [(''user'', PyInt 1)]) \<and>
   result_attr ''status'' (objects_create example_db Order [(''user'', PyInt 1)])
     = Inr (Some (PyStr [])) \<and>
   PyStr [] \<noteq> PyStr ''basket''"
  by (simp add: result_attr_def attr_of_def objects_create_def Model_init_def Model_save_def
      Let_def init_value_def attname_def get_default_def empty_strings_allowed_def
      unique_sets_def resolve_def store_defs example_defs schema_defs)






text \<open>
  \<^verbatim>\<open>Order(user=u, contact=c)\<close> for the stored user 1 and contact 1 has status
  \<^verbatim>\<open>''\<close>.
\<close>

theorem Order_default_status_witness:
  "''status'' \<notin> set (map fst [(''user'', PyInt 1), (''contact'', PyInt 1)]) \<and>
   attr_of ''status'' (Model_init Order [(''user'', PyInt 1), (''contact'', PyInt 1)])
     = Inr (Some (PyStr []))"
proof -
  let ?kw = "[(''user'', PyInt 1), (''contact'', PyInt 1)]"
  have h: "''status'' \<notin> set (map fst ?kw)" by simp
  obtain x where x: "Model_init Order ?kw = Inr x"
    by (simp add: Model_init_def attname_def schema_defs)
  from Order_default_status[OF h] x have "x ''status'' = Some (PyStr [])" by blast
  with h x show ?thesis by (simp add: attr_of_def)
qed




section \<open>Creating users\<close>

lemma map_of_setdefault:
  "map_of (setdefault kw k v) k' =
     (case map_of kw k' of Some x \<Rightarrow> Some x | None \<Rightarrow> if k' = k then Some v else None)"
proof (cases "k \<in> set (map fst kw)")
  case True
  then have "map_of kw k \<noteq> None" by (simp add: map_of_eq_None_iff)
  with True show ?thesis by (auto simp: setdefault_def split: option.splits)
next
  case False
  then show ?thesis by (auto simp: setdefault_def map_add_def split: option.splits)
qed

lemma keys_setdefault: "set (map fst (setdefault kw k v)) = insert k (set (map fst kw))"
  by (auto simp: setdefault_def)

text \<open>What \<^verbatim>\<open>_create_user\<close> returns on success.\<close>

lemma private_create_user_success:
  assumes "UserManager_private_create_user fw d email password extra = (d', Inr u)"
  shows "\<exists>s user. email = PyStr s \<and> s \<noteq> [] \<and>
           Model_init User ((''email'', PyStr (normalize fw s)) # extra) = Inr user \<and>
           Model_save d User (set_password fw user password) = (d', Inr u)"
  using assms
  by (auto simp: UserManager_private_create_user_def normalize_email_def
           split: if_splits sum.splits pyval.splits)


lemma user_field_mem:
  "(fld ''is_staff'' BooleanField)\<lparr>default := Some (PyBool False)\<rparr> \<in> set (meta_fields User)"
  "(fld ''is_superuser'' BooleanField)\<lparr>default := Some (PyBool False)\<rparr> \<in> set (meta_fields User)"
  "(fld ''email'' EmailField)\<lparr>max_length := Some 40, unique := True\<rparr> \<in> set (meta_fields User)"
  "(fld ''type'' CharField)\<lparr>choices := USER_TYPE_CHOICES, max_length := Some 5,
                                default := Some (PyStr ''buyer'')\<rparr> \<in> set (meta_fields User)"
  by (simp_all add: User_fields_def)

lemma User_init_attrs:
  assumes "Model_init User kw = Inr x"
  shows "x ''is_staff'' = Some (case map_of kw ''is_staff'' of Some v \<Rightarrow> v | None \<Rightarrow> PyBool False)"
    and "x ''is_superuser'' = Some (case map_of kw ''is_superuser'' of Some v \<Rightarrow> v | None \<Rightarrow> PyBool False)"
    and "x ''email'' = Some (case map_of kw ''email'' of Some v \<Rightarrow> v | None \<Rightarrow> PyStr [])"
    and "x ''type'' = Some (case map_of kw ''type'' of Some v \<Rightarrow> v | None \<Rightarrow> PyStr ''buyer'')"
  using Model_init_attr[OF assms user_field_mem(1)] Model_init_attr[OF assms user_field_mem(2)]
    Model_init_attr[OF assms user_field_mem(3)] Model_init_attr[OF assms user_field_mem(4)]
  by (simp_all add: fld_def init_value_def attname_def get_default_def empty_strings_allowed_def
           split: option.splits)

lemma User_saved_attrs:
  assumes "Model_save d User (set_password fw user password) = (d', Inr u)"
    and "k \<in> {''is_staff'', ''is_superuser'', ''email'', ''type''}"
  shows "u k = user k" and "u \<in> set (tables d' User)"
proof -
  note r = Model_save_success[OF assms(1)]
  have "pre_save d User (set_password fw user password) k = set_password fw user password k"
    using assms(2) by (intro pre_save_attr) (auto simp: User_fields_def id_field_def fld_def)
  with r assms(2) show "u k = user k" by (auto simp: set_password_def)
  from r show "u \<in> set (tables d' User)" by (simp add: write_row_mem)
qed

text \<open>
  C10. A user that \<^verbatim>\<open>create_user\<close> returns is stored, has \<^verbatim>\<open>is_staff = False\<close> unless
  the caller passed \<^verbatim>\<open>is_staff\<close>, \<^verbatim>\<open>is_superuser = False\<close> unless the caller passed
  \<^verbatim>\<open>is_superuser\<close>, and type \<^verbatim>\<open>'buyer'\<close> unless the caller passed \<^verbatim>\<open>type\<close>.
\<close>

theorem create_user_defaults:
  assumes "UserManager_create_user fw d email password extra = (d', Inr u)"
  shows "(''is_staff'' \<notin> set (map fst extra) \<longrightarrow> u ''is_staff'' = Some (PyBool False)) \<and>
         (''is_superuser'' \<notin> set (map fst extra) \<longrightarrow> u ''is_superuser'' = Some (PyBool False)) \<and>
         (''type'' \<notin> set (map fst extra) \<longrightarrow> u ''type'' = Some (PyStr ''buyer'')) \<and>
         u \<in> set (tables d' User)"
proof -
  define extra2 where
    "extra2 = setdefault (setdefault extra ''is_staff'' (PyBool False)) ''is_superuser'' (PyBool False)"
  from assms have "UserManager_private_create_user fw d email password extra2 = (d', Inr u)"
    by (simp add: UserManager_create_user_def Let_def extra2_def)
  from private_create_user_success[OF this] obtain s user where
    i: "Model_init User ((''email'', PyStr (normalize fw s)) # extra2) = Inr user" and
    sv: "Model_save d User (set_password fw user password) = (d', Inr u)" by blast
  note a = User_init_attrs[OF i]
  note b = User_saved_attrs[OF sv]
  have "u ''is_staff'' = Some (PyBool False)" if "''is_staff'' \<notin> set (map fst extra)"
  proof -
    from that have "map_of extra ''is_staff'' = None" by (simp add: map_of_eq_None_iff)
    then have "map_of extra2 ''is_staff'' = Some (PyBool False)"
      by (simp add: extra2_def map_of_setdefault)
    with a(1) b(1)[of "''is_staff''"] show ?thesis by simp
  qed
  moreover
  have "u ''is_superuser'' = Some (PyBool False)" if "''is_superuser'' \<notin> set (map fst extra)"
  proof -
    from that have "map_of extra ''is_superuser'' = None" by (simp add: map_of_eq_None_iff)
    then have "map_of extra2 ''is_superuser'' = Some (PyBool False)"
      by (simp add: extra2_def map_of_setdefault)
    with a(2) b(1)[of "''is_superuser''"] show ?thesis by simp
  qed
  moreover
  have "u ''type'' = Some (PyStr ''buyer'')" if "''type'' \<notin> set (map fst extra)"
  proof -
    from that have "map_of extra ''type'' = None" by (simp add: map_of_eq_None_iff)
    then have "map_of extra2 ''type'' = None"
      by (simp add: extra2_def map_of_setdefault)
    with a(4) b(1)[of "''type''"] show ?thesis by simp
  qed
  ultimately show ?thesis using b(2) by blast
qed

lemmas manager_defs =
  UserManager_create_user_def UserManager_create_superuser_def
  UserManager_private_create_user_def normalize_email_def set_password_def setdefault_def
  dict_get_def Model_init_def init_value_def attname_def get_default_def
  empty_strings_allowed_def Model_save_def Let_def unique_sets_def resolve_def

lemma example_new_user:
  "\<exists>d' u. UserManager_create_user example_fw example_db (PyStr ''new@example.com'') PyNone
             [(''username'', PyStr ''new'')] = (d', Inr u)"
  by (simp add: manager_defs example_fw_def store_defs example_defs schema_defs)


text \<open>
  \<^verbatim>\<open>create_user('new@example.com', username='new')\<close> in the example store succeeds with
  both flags false and type buyer.
\<close>

theorem create_user_defaults_witness:
  "''is_staff'' \<notin> set (map fst [(''username'', PyStr ''new'')]) \<and>
   ''is_superuser'' \<notin> set (map fst [(''username'', PyStr ''new'')]) \<and>
   ''type'' \<notin> set (map fst [(''username'', PyStr ''new'')]) \<and>
   map (\<lambda>k. result_attr k
          (UserManager_create_user example_fw example_db (PyStr ''new@example.com'') PyNone
             [(''username'', PyStr ''new'')]))
       [''is_staff'', ''is_superuser'', ''type'']
     = [Inr (Some (PyBool False)), Inr (Some (PyBool False)), Inr (Some (PyStr ''buyer''))]"
proof -
  from example_new_user obtain d' u where
    c: "UserManager_create_user example_fw example_db (PyStr ''new@example.com'') PyNone
          [(''username'', PyStr ''new'')] = (d', Inr u)" by blast
  from create_user_defaults[OF c]
  have "u ''is_staff'' = Some (PyBool False)" "u ''is_superuser'' = Some (PyBool False)"
    "u ''type'' = Some (PyStr ''buyer'')" by simp_all
  then show ?thesis unfolding c by (simp add: result_attr_def attr_of_def)
qed




section \<open>Users by email\<close>


lemma not_in_mapD: "a \<notin> set (map f xs) \<Longrightarrow> r \<in> set xs \<Longrightarrow> f r \<noteq> a"
proof
  assume a: "a \<notin> set (map f xs)" and r: "r \<in> set xs" and e: "f r = a"
  from r have "f r \<in> f ` set xs" by (rule imageI)
  with a e show False by simp
qed

lemma filter_replace_unique:
  assumes "distinct (map f xs)" and "a \<in> set (map f xs)" and "P u"
    and "\<forall>r \<in> set xs. f r \<noteq> a \<longrightarrow> \<not> P r"
  shows "filter P (map (\<lambda>r. if f r = a then u else r) xs) = [u]"
  using assms
proof (induction xs)
  case Nil
  then show ?case by simp
next
  case (Cons x xs)
  show ?case
  proof (cases "f x = a")
    case True
    with Cons.prems(1) have na: "a \<notin> set (map f xs)" by auto
    then have "map (\<lambda>r. if f r = a then u else r) xs = xs"
      by (induction xs) auto
    moreover have "filter P xs = []"
    proof -
      have "\<not> P r" if "r \<in> set xs" for r
      proof -
        from that have "f r \<in> set (map f xs)" by simp
        with na have "f r \<noteq> a" by metis
        with that Cons.prems(4) show ?thesis by simp
      qed
      then show ?thesis by (simp add: filter_empty_conv)
    qed
    ultimately show ?thesis using True Cons.prems(3) by simp
  next
    case False
    with Cons.prems have "filter P (map (\<lambda>r. if f r = a then u else r) xs) = [u]"
      by (intro Cons.IH) auto
    with False Cons.prems(4) show ?thesis by simp
  qed
qed

text \<open>A stored row is the only row with its value in a unique, non-null column.\<close>

lemma saved_row_unique:
  assumes sv: "Model_save d m x = (d', Inr u)"
    and k: "[k] \<in> set (unique_sets m)"
    and v: "u k = Some v" "v \<noteq> PyNone"
    and dist: "distinct (map row_id (tables d m))"
  shows "filter (\<lambda>r. r k = Some v) (tables d' m) = [u]"
proof -
  note r = Model_save_success[OF sv]
  from r have acc: "db_accepts d m u" and d': "d' = write_row d m u" by blast+
  have other: "r k \<noteq> Some v" if "r \<in> set (tables d m)" "row_id r \<noteq> row_id u" for r
  proof
    assume "r k = Some v"
    with that(2) k v have "conflicts m u r" unfolding conflicts_def by (intro conjI bexI[of _ "[k]"]) auto
    with acc that(1) show False by (auto simp: db_accepts_def)
  qed
  show ?thesis
  proof (cases "row_id u \<in> set (map row_id (tables d m))")
    case True
    have "filter (\<lambda>r. r k = Some v) (map (\<lambda>r. if row_id r = row_id u then u else r) (tables d m)) = [u]"
      using dist True v(1) other by (intro filter_replace_unique) auto
    with True show ?thesis by (simp add: d' write_row_def)
  next
    case False
    have "r k \<noteq> Some v" if "r \<in> set (tables d m)" for r
    proof -
      from False that have "row_id r \<noteq> row_id u" by (rule not_in_mapD)
      with that show ?thesis by (rule other)
    qed
    then have "filter (\<lambda>r. r k = Some v) (tables d m) = []" by (auto simp: filter_empty_conv)
    with False v(1) show ?thesis by (simp add: d' write_row_def)
  qed
qed

text \<open>Saving keeps the primary keys of a table distinct.\<close>

lemma Model_save_distinct_ids:
  assumes "Model_save d m x = (d', res)" and "distinct (map row_id (tables d m))"
  shows "distinct (map row_id (tables d' m))"
proof (cases res)
  case (Inl e)
  with assms Model_save_failure[of d m x d' e] show ?thesis by simp
next
  case (Inr u)
  with assms(1) have d': "d' = write_row d m u" using Model_save_success[of d m x d' u] by blast
  have same: "map row_id (map (\<lambda>r. if row_id r = row_id u then u else r) xs) = map row_id xs"
    for xs
    by (induction xs) auto
  show ?thesis
  proof (cases "row_id u \<in> set (map row_id (tables d m))")
    case True
    then have tbl: "tables d' m = map (\<lambda>r. if row_id r = row_id u then u else r) (tables d m)"
      by (simp add: d' write_row_def)
    have "map row_id (tables d' m) = map row_id (tables d m)" unfolding tbl by (rule same)
    with assms(2) show ?thesis by simp
  next
    case False
    then have "tables d' m = tables d m @ [u]" by (simp add: d' write_row_def)
    with False assms(2) show ?thesis by simp
  qed
qed







section \<open>Confirmation tokens\<close>

lemma unique_sets_ConfirmEmailToken: "unique_sets ConfirmEmailToken = [[''key'']]"
  by (simp add: unique_sets_def schema_defs)

lemma token_saved_attrs:
  assumes "Model_save d ConfirmEmailToken x = (d', Inr t)"
  shows "t ''key'' = x ''key''" and "t ''user'' = x ''user''"
    and "t \<in> set (tables d' ConfirmEmailToken)"
    and "t ''user'' \<noteq> None \<and> t ''user'' \<noteq> Some PyNone"
proof -
  note r = Model_save_success[OF assms]
  have "pre_save d ConfirmEmailToken x ''key'' = x ''key''"
    by (rule pre_save_attr) (simp_all add: ConfirmEmailToken_fields_def id_field_def fld_def)
  with r show "t ''key'' = x ''key''" by simp
  have "pre_save d ConfirmEmailToken x ''user'' = x ''user''"
    by (rule pre_save_attr) (simp_all add: ConfirmEmailToken_fields_def id_field_def fld_def)
  with r show "t ''user'' = x ''user''" by simp
  from r show "t \<in> set (tables d' ConfirmEmailToken)" by (simp add: write_row_mem)
  from r have "db_accepts d ConfirmEmailToken t" by blast
  then have "not_null_ok ConfirmEmailToken t" by (simp add: db_accepts_def)
  then show "t ''user'' \<noteq> None \<and> t ''user'' \<noteq> Some PyNone"
    by (simp add: not_null_ok_def ConfirmEmailToken_fields_def id_field_def fld_def)
qed

lemma token_args_key:
  assumes "Model_save_args d ConfirmEmailToken x a = (d', Inr t)"
  shows "t ''key'' = x ''key''"
  using assms
  by (rule Model_save_args_attr) (simp_all add: ConfirmEmailToken_fields_def id_field_def fld_def)

text \<open>
  If the stored rows with the key of the instance hold the same token key as the
  instance, they still do after a save, whatever columns it writes.
\<close>

lemma token_stored_key:
  assumes sv: "Model_save_args d ConfirmEmailToken x a = (d', Inr t)"
    and xk: "x ''key'' = Some k"
    and st: "\<forall>r \<in> set (tables d ConfirmEmailToken). row_id r = row_id x \<longrightarrow> r ''key'' = Some k"
    and r': "r' \<in> set (tables d' ConfirmEmailToken)" "row_id r' = row_id t"
  shows "r' ''key'' = Some k"
proof (cases "update_fields a")
  case None
  note r = Model_save_success[OF Model_save_args_full[OF None sv]]
  from r have d': "d' = write_row d ConfirmEmailToken t" by blast
  from r' have "r' = t" unfolding d' by (rule write_row_same_id)
  with token_args_key[OF sv] xk show ?thesis by simp
next
  case (Some fs)
  note r = Model_save_args_partial[OF Some sv]
  from r have y: "t = x" by blast
  show ?thesis
  proof (cases "fs = []")
    case True
    with r have "d' = d" by blast
    with r' st y show ?thesis by simp
  next
    case False
    let ?upd = "\<lambda>r. if row_id r = row_id x then merge_fields ConfirmEmailToken fs x r else r"
    from False r have tb: "tables d' ConfirmEmailToken = map ?upd (tables d ConfirmEmailToken)"
      by blast
    have id: "row_id (?upd r) = row_id r" for r by (simp add: merge_fields_row_id)
    from r'(1) obtain r1 where r1: "r1 \<in> set (tables d ConfirmEmailToken)" "r' = ?upd r1"
      unfolding tb by auto
    with r'(2) id[of r1] have same: "row_id r1 = row_id x" unfolding y by simp
    with r1(2) have m: "r' = merge_fields ConfirmEmailToken fs x r1" by simp
    from st r1(1) same have "r1 ''key'' = Some k" by blast
    with xk show ?thesis unfolding m by (simp add: merge_fields_def)
  qed
qed

text \<open>
  C9. For a token whose key is set (truthy), \<^verbatim>\<open>ConfirmEmailToken.save\<close>, called with
  any arguments, is the inherited save: the generator is not consulted. The saved token
  keeps its key; where the store held that key for the token, it still does; and saving
  the result again, with any arguments and whatever the generator would return, keeps
  the key too.
\<close>

theorem ConfirmEmailToken_save_keeps_key:
  assumes "self ''key'' = Some k" and "truthy k"
  shows "ConfirmEmailToken_save generated d self a = Model_save_args d ConfirmEmailToken self a \<and>
         (\<forall>d' t. ConfirmEmailToken_save generated d self a = (d', Inr t) \<longrightarrow>
            t ''key'' = Some k \<and>
            ((\<forall>r \<in> set (tables d ConfirmEmailToken).
                 row_id r = row_id self \<longrightarrow> r ''key'' = Some k) \<longrightarrow>
             (\<forall>r \<in> set (tables d' ConfirmEmailToken).
                 row_id r = row_id t \<longrightarrow> r ''key'' = Some k)) \<and>
            (\<forall>g2 a2 d2 t2. ConfirmEmailToken_save g2 d' t a2 = (d2, Inr t2) \<longrightarrow>
                 t2 ''key'' = Some k))"
proof -
  have once: "ConfirmEmailToken_save g d0 x a0 = Model_save_args d0 ConfirmEmailToken x a0"
    if "x ''key'' = Some k" for g d0 x a0
    using that assms(2) by (simp add: ConfirmEmailToken_save_def)
  have keep: "t ''key'' = Some k"
    if "x ''key'' = Some k" "ConfirmEmailToken_save g d0 x a0 = (d1, Inr t)" for g d0 d1 x t a0
    using that token_args_key[of d0 x a0 d1 t] once[of x g d0 a0] by simp
  have "t ''key'' = Some k \<and>
        ((\<forall>r \<in> set (tables d ConfirmEmailToken).
             row_id r = row_id self \<longrightarrow> r ''key'' = Some k) \<longrightarrow>
         (\<forall>r \<in> set (tables d' ConfirmEmailToken).
             row_id r = row_id t \<longrightarrow> r ''key'' = Some k)) \<and>
        (\<forall>g2 a2 d2 t2. ConfirmEmailToken_save g2 d' t a2 = (d2, Inr t2) \<longrightarrow>
             t2 ''key'' = Some k)"
    if s: "ConfirmEmailToken_save generated d self a = (d', Inr t)" for d' t
  proof -
    from keep[of self, OF assms(1) s] have k1: "t ''key'' = Some k" .
    from s once[of self, OF assms(1)]
    have sv: "Model_save_args d ConfirmEmailToken self a = (d', Inr t)" by simp
    have st: "r' ''key'' = Some k"
      if "\<forall>r \<in> set (tables d ConfirmEmailToken). row_id r = row_id self \<longrightarrow> r ''key'' = Some k"
        "r' \<in> set (tables d' ConfirmEmailToken)" "row_id r' = row_id t" for r'
      using sv assms(1) that by (rule token_stored_key)
    from k1 st keep[of t] show ?thesis by blast
  qed
  with once[of self, OF assms(1)] show ?thesis by blast
qed

text \<open>
  Saving the stored token of the example again keeps its key, in the instance and in the
  store, also when only the user column is written.
\<close>

theorem ConfirmEmailToken_save_keeps_key_witness:
  "example_token ''key'' = Some (PyStr ''0a1b2c'') \<and> truthy (PyStr ''0a1b2c'') \<and>
   result_attr ''key'' (ConfirmEmailToken_save ''ffffff'' example_db example_token no_args)
     = Inr (Some (PyStr ''0a1b2c'')) \<and>
   map (\<lambda>r. r ''key'')
       (tables (fst (ConfirmEmailToken_save ''ffffff'' example_db example_token no_args))
          ConfirmEmailToken)
     = [Some (PyStr ''0a1b2c'')] \<and>
   result_attr ''key''
      (ConfirmEmailToken_save ''ffffff'' example_db example_token
         (no_args\<lparr>update_fields := Some [''user'']\<rparr>))
     = Inr (Some (PyStr ''0a1b2c''))"
proof -
  have k: "example_token ''key'' = Some (PyStr ''0a1b2c'')" by (simp add: example_token_def)
  have t: "truthy (PyStr ''0a1b2c'')" by simp
  have acc: "db_accepts example_db ConfirmEmailToken
               (pre_save example_db ConfirmEmailToken example_token)"
    by (simp add: store_defs unique_sets_ConfirmEmailToken example_defs schema_defs)
  then obtain d' x where s: "Model_save example_db ConfirmEmailToken example_token = (d', Inr x)"
    by (simp add: Model_save_def Let_def)
  have rows: "map (\<lambda>r. r ''key'') (tables d' ConfirmEmailToken) = [Some (PyStr ''0a1b2c'')]"
    using s acc
    by (auto simp: Model_save_def Let_def)
       (simp add: store_defs example_defs schema_defs)
  note th = ConfirmEmailToken_save_keeps_key[where self = example_token
      and generated = "''ffffff''" and d = example_db, OF k t]
  from th[of no_args] s
  have s': "ConfirmEmailToken_save ''ffffff'' example_db example_token no_args = (d', Inr x)"
    by (simp add: Model_save_no_args)
  with th[of no_args] have a: "x ''key'' = Some (PyStr ''0a1b2c'')" by blast
  let ?a = "no_args\<lparr>update_fields := Some [''user'']\<rparr>"
  have "\<exists>d2 x2. Model_save_args example_db ConfirmEmailToken example_token ?a = (d2, Inr x2)"
    by (simp add: Model_save_args_def no_args_def merge_fields_def non_pk_names_def resolve_def
          attname_def Let_def store_defs unique_sets_ConfirmEmailToken example_defs schema_defs)
  then obtain d2 x2 where
    "Model_save_args example_db ConfirmEmailToken example_token ?a = (d2, Inr x2)" by blast
  with th[of ?a]
  have s2: "ConfirmEmailToken_save ''ffffff'' example_db example_token ?a = (d2, Inr x2)"
    by simp
  with th[of ?a] have b: "x2 ''key'' = Some (PyStr ''0a1b2c'')" by blast
  from k t a rows b show ?thesis unfolding s' s2 by (simp add: result_attr_def attr_of_def)
qed

lemma accepted_Model_save: "accepted (Model_save d m x) = db_accepts d m (pre_save d m x)"
  by (simp add: accepted_def Model_save_def Let_def)

lemma fk_ok_clock: "fk_ok (d\<lparr>clock := c\<rparr>) m x = fk_ok d m x"
  by (simp add: fk_ok_def cong: option.case_cong)

text \<open>Whether the store accepts a token does not depend on the time.\<close>

lemma token_clock:
  "db_accepts (d\<lparr>clock := c\<rparr>) ConfirmEmailToken (pre_save (d\<lparr>clock := c\<rparr>) ConfirmEmailToken x)
     = db_accepts d ConfirmEmailToken (pre_save d ConfirmEmailToken x)"
proof (cases "is_update d ConfirmEmailToken x")
  case True
  then have "is_update (d\<lparr>clock := c\<rparr>) ConfirmEmailToken x" by (simp add: is_update_def)
  with True show ?thesis
    by (simp add: pre_save_def db_accepts_def fk_ok_clock)
next
  case False
  then have f: "\<not> is_update (d\<lparr>clock := c\<rparr>) ConfirmEmailToken x" by (simp add: is_update_def)
  let ?y = "pre_save d ConfirmEmailToken x"
  have y: "pre_save (d\<lparr>clock := c\<rparr>) ConfirmEmailToken x = ?y(''created_at'' \<mapsto> PyInt c)"
    using False f
    by (intro ext) (simp add: pre_save_def ConfirmEmailToken_fields_def id_field_def fld_def)
  have c0: "?y ''created_at'' = Some (PyInt (clock d))"
    using False by (simp add: pre_save_def ConfirmEmailToken_fields_def id_field_def fld_def)
  have 1: "not_null_ok ConfirmEmailToken (?y(''created_at'' \<mapsto> PyInt c))
             = not_null_ok ConfirmEmailToken ?y"
    using c0 by (simp add: not_null_ok_def ConfirmEmailToken_fields_def id_field_def fld_def)
  have 2: "check_ok ConfirmEmailToken (?y(''created_at'' \<mapsto> PyInt c))
             = check_ok ConfirmEmailToken ?y"
    by (simp add: check_ok_def ConfirmEmailToken_fields_def id_field_def fld_def)
  have 3: "fk_ok (d\<lparr>clock := c\<rparr>) ConfirmEmailToken (?y(''created_at'' \<mapsto> PyInt c))
             = fk_ok d ConfirmEmailToken ?y"
    by (simp add: fk_ok_clock)
       (simp add: fk_ok_def ConfirmEmailToken_fields_def id_field_def fld_def)
  have 4: "conflicts ConfirmEmailToken (?y(''created_at'' \<mapsto> PyInt c)) r
             = conflicts ConfirmEmailToken ?y r" for r
    by (simp add: conflicts_def unique_sets_ConfirmEmailToken row_id_def)
  show ?thesis unfolding y by (simp add: db_accepts_def 1 2 3 4)
qed

text \<open>
  C8, as the code has it. A token that \<^verbatim>\<open>save\<close> returns carries the key it was given
  or, when that was empty, the string the token generator returned; the model fixes no
  length for either. When the save is made without \<^verbatim>\<open>update_fields\<close>, the token is
  stored, it is the only stored token with its key, it refers to one stored user, and no
  other token is removed. A second token whose key (given or generated) is already
  stored is rejected with IntegrityError. Whether a save is accepted does not depend on
  the time: nothing expires.
\<close>

theorem ConfirmEmailToken_key:
  "(\<forall>k d' t. self ''key'' = Some k \<and> ConfirmEmailToken_save generated d self a = (d', Inr t) \<longrightarrow>
      t ''key'' = Some (if truthy k then k else PyStr generated)) \<and>
   (\<forall>k d' t. self ''key'' = Some k \<and> update_fields a = None \<and>
      ConfirmEmailToken_save generated d self a = (d', Inr t) \<longrightarrow>
      t \<in> set (tables d' ConfirmEmailToken) \<and>
      (distinct (map row_id (tables d ConfirmEmailToken)) \<longrightarrow>
         filter (\<lambda>r. r ''key'' = t ''key'') (tables d' ConfirmEmailToken) = [t]) \<and>
      (\<exists>v. t ''user'' = Some v \<and> v \<noteq> PyNone \<and> v \<in> set (map row_id (tables d User))) \<and>
      (\<forall>r \<in> set (tables d ConfirmEmailToken).
         row_id r \<noteq> row_id t \<longrightarrow> r \<in> set (tables d' ConfirmEmailToken))) \<and>
   (\<forall>k old. self ''key'' = Some k \<and> old \<in> set (tables d ConfirmEmailToken) \<and>
      old ''key'' = Some (if truthy k then k else PyStr generated) \<and>
      (row_id self = PyNone \<or> row_id self \<noteq> row_id old) \<longrightarrow>
      ConfirmEmailToken_save generated d self no_args = (d, Inl IntegrityError)) \<and>
   (\<forall>c. accepted (ConfirmEmailToken_save generated (d\<lparr>clock := c\<rparr>) self no_args)
          = accepted (ConfirmEmailToken_save generated d self no_args))"
proof -
  define eff where "eff k = (if truthy k then self else self(''key'' \<mapsto> PyStr generated))" for k
  have unf: "ConfirmEmailToken_save generated d0 self a0
               = Model_save_args d0 ConfirmEmailToken (eff k) a0"
    if "self ''key'' = Some k" for k d0 a0
    using that by (simp add: ConfirmEmailToken_save_def eff_def)
  have effkey: "eff k ''key'' = Some (if truthy k then k else PyStr generated)"
    if "self ''key'' = Some k" for k
    using that by (simp add: eff_def)
  have nonnone: "(if truthy k then k else PyStr generated) \<noteq> PyNone" for k
    by (cases k) auto
  have p0: "t ''key'' = Some (if truthy k then k else PyStr generated)"
    if k: "self ''key'' = Some k" and s: "ConfirmEmailToken_save generated d self a = (d', Inr t)"
    for k d' t
  proof -
    from s unf[OF k] have "Model_save_args d ConfirmEmailToken (eff k) a = (d', Inr t)" by simp
    from token_args_key[OF this] effkey[OF k] show ?thesis by simp
  qed
  have p1: "t \<in> set (tables d' ConfirmEmailToken) \<and>
      (distinct (map row_id (tables d ConfirmEmailToken)) \<longrightarrow>
         filter (\<lambda>r. r ''key'' = t ''key'') (tables d' ConfirmEmailToken) = [t]) \<and>
      (\<exists>v. t ''user'' = Some v \<and> v \<noteq> PyNone \<and> v \<in> set (map row_id (tables d User))) \<and>
      (\<forall>r \<in> set (tables d ConfirmEmailToken).
         row_id r \<noteq> row_id t \<longrightarrow> r \<in> set (tables d' ConfirmEmailToken))"
    if k: "self ''key'' = Some k" and full: "update_fields a = None"
      and s: "ConfirmEmailToken_save generated d self a = (d', Inr t)"
    for k d' t
  proof -
    from s unf[OF k] have "Model_save_args d ConfirmEmailToken (eff k) a = (d', Inr t)" by simp
    with full have sv: "Model_save d ConfirmEmailToken (eff k) = (d', Inr t)"
      by (rule Model_save_args_full)
    note a = token_saved_attrs[OF sv]
    note r = Model_save_success[OF sv]
    from p0[OF k s]
    have key: "t ''key'' = Some (if truthy k then k else PyStr generated)" .
    have uniq: "filter (\<lambda>r. r ''key'' = t ''key'') (tables d' ConfirmEmailToken) = [t]"
      if "distinct (map row_id (tables d ConfirmEmailToken))"
      unfolding key using sv _ key nonnone that
      by (rule saved_row_unique) (simp add: unique_sets_ConfirmEmailToken)
    from r have "db_accepts d ConfirmEmailToken t" by blast
    then have "fk_ok d ConfirmEmailToken t" by (simp add: db_accepts_def)
    then have "case t ''user'' of None \<Rightarrow> True
                 | Some v \<Rightarrow> v = PyNone \<or> v \<in> set (map row_id (tables d User))"
      by (simp add: fk_ok_def ConfirmEmailToken_fields_def id_field_def fld_def)
    with a(4)
    have usr: "\<exists>v. t ''user'' = Some v \<and> v \<noteq> PyNone \<and> v \<in> set (map row_id (tables d User))"
      by (cases "t ''user''") auto
    have keepr: "r \<in> set (tables d' ConfirmEmailToken)"
      if "r \<in> set (tables d ConfirmEmailToken)" "row_id r \<noteq> row_id t" for r
    proof -
      from r have d': "d' = write_row d ConfirmEmailToken t" by blast
      from that show ?thesis unfolding d' write_row_def by auto
    qed
    from a(3) uniq usr keepr show ?thesis by blast
  qed
  have p2: "ConfirmEmailToken_save generated d self no_args = (d, Inl IntegrityError)"
    if k: "self ''key'' = Some k" and old: "old \<in> set (tables d ConfirmEmailToken)"
      and ok: "old ''key'' = Some (if truthy k then k else PyStr generated)"
      and sec: "row_id self = PyNone \<or> row_id self \<noteq> row_id old" for k old
  proof -
    from effkey[OF k] ok have same: "\<forall>f \<in> set [''key'']. eff k f = old f" by simp
    have rid: "row_id (eff k) = row_id self" by (simp add: eff_def row_id_def)
    have "Model_save d ConfirmEmailToken (eff k) = (d, Inl IntegrityError)"
      using _ old same sec[folded rid]
      by (rule unique_violation)
         (simp_all add: unique_sets_ConfirmEmailToken ConfirmEmailToken_fields_def
            id_field_def fld_def)
    with unf[OF k] show ?thesis by (simp add: Model_save_no_args)
  qed
  have p3: "accepted (ConfirmEmailToken_save generated (d\<lparr>clock := c\<rparr>) self no_args)
          = accepted (ConfirmEmailToken_save generated d self no_args)" for c
  proof (cases "self ''key''")
    case None
    then show ?thesis by (simp add: ConfirmEmailToken_save_def accepted_def)
  next
    case (Some k)
    show ?thesis unfolding unf[OF Some] Model_save_no_args accepted_Model_save
      by (rule token_clock)
  qed
  have c0: "\<forall>k d' t. self ''key'' = Some k \<and>
      ConfirmEmailToken_save generated d self a = (d', Inr t) \<longrightarrow>
      t ''key'' = Some (if truthy k then k else PyStr generated)"
    using p0 by blast
  have c1: "\<forall>k d' t. self ''key'' = Some k \<and> update_fields a = None \<and>
      ConfirmEmailToken_save generated d self a = (d', Inr t) \<longrightarrow>
      t \<in> set (tables d' ConfirmEmailToken) \<and>
      (distinct (map row_id (tables d ConfirmEmailToken)) \<longrightarrow>
         filter (\<lambda>r. r ''key'' = t ''key'') (tables d' ConfirmEmailToken) = [t]) \<and>
      (\<exists>v. t ''user'' = Some v \<and> v \<noteq> PyNone \<and> v \<in> set (map row_id (tables d User))) \<and>
      (\<forall>r \<in> set (tables d ConfirmEmailToken).
         row_id r \<noteq> row_id t \<longrightarrow> r \<in> set (tables d' ConfirmEmailToken))"
    using p1 by blast
  have c2: "\<forall>k old. self ''key'' = Some k \<and> old \<in> set (tables d ConfirmEmailToken) \<and>
      old ''key'' = Some (if truthy k then k else PyStr generated) \<and>
      (row_id self = PyNone \<or> row_id self \<noteq> row_id old) \<longrightarrow>
      ConfirmEmailToken_save generated d self no_args = (d, Inl IntegrityError)"
    using p2 by blast
  have c3: "\<forall>c. accepted (ConfirmEmailToken_save generated (d\<lparr>clock := c\<rparr>) self no_args)
          = accepted (ConfirmEmailToken_save generated d self no_args)"
    using p3 by blast
  show ?thesis by (intro conjI) (fact c0, fact c1, fact c2, fact c3)
qed

text \<open>
  The claim as stated fails: tokens saved with the keys \<^verbatim>\<open>'a'\<close> and \<^verbatim>\<open>'bb'\<close> keep
  them. These keys do not come from the generator and differ in length.
\<close>

theorem ConfirmEmailToken_key_counterexample:
  "result_attr ''key''
      (ConfirmEmailToken_save ''9f8e7d6c5b4a39281706'' example_db
         (example_new_token (PyStr ''a'')) no_args)
     = Inr (Some (PyStr ''a'')) \<and>
   result_attr ''key''
      (ConfirmEmailToken_save ''9f8e7d6c5b4a39281706'' example_db
         (example_new_token (PyStr ''bb'')) no_args)
     = Inr (Some (PyStr ''bb'')) \<and>
   length ''a'' \<noteq> length ''bb''"
  by (simp add: result_attr_def attr_of_def ConfirmEmailToken_save_def Model_save_no_args
      Model_save_def Let_def example_new_token_def store_defs unique_sets_ConfirmEmailToken
      example_defs schema_defs)

lemma example_new_token_saved:
  "\<exists>d' t. ConfirmEmailToken_save ''9f8e7d6c5b4a39281706'' example_db
             (example_new_token (PyStr [])) no_args
     = (d', Inr t)"
  by (simp add: ConfirmEmailToken_save_def Model_save_no_args Model_save_def Let_def
      example_new_token_def store_defs unique_sets_ConfirmEmailToken example_defs schema_defs)

text \<open>
  In the example store a token with an empty key gets the generated key and belongs to
  user 1; a generated or given key equal to the stored token's is rejected.
\<close>

theorem ConfirmEmailToken_key_witness:
  "example_new_token (PyStr []) ''key'' = Some (PyStr []) \<and>
   distinct (map row_id (tables example_db ConfirmEmailToken)) \<and>
   result_attr ''key''
      (ConfirmEmailToken_save ''9f8e7d6c5b4a39281706'' example_db
         (example_new_token (PyStr [])) no_args)
     = Inr (Some (PyStr ''9f8e7d6c5b4a39281706'')) \<and>
   result_attr ''user''
      (ConfirmEmailToken_save ''9f8e7d6c5b4a39281706'' example_db
         (example_new_token (PyStr [])) no_args)
     = Inr (Some (PyInt 1)) \<and>
   example_token \<in> set (tables example_db ConfirmEmailToken) \<and>
   ConfirmEmailToken_save ''0a1b2c'' example_db (example_new_token (PyStr [])) no_args
     = (example_db, Inl IntegrityError) \<and>
   ConfirmEmailToken_save ''9f8e7d6c5b4a39281706'' example_db
      (example_new_token (PyStr ''0a1b2c'')) no_args
     = (example_db, Inl IntegrityError)"
proof -
  let ?g = "''9f8e7d6c5b4a39281706''"
  have k: "example_new_token (PyStr []) ''key'' = Some (PyStr [])"
    by (simp add: example_new_token_def)
  have k2: "example_new_token (PyStr ''0a1b2c'') ''key'' = Some (PyStr ''0a1b2c'')"
    by (simp add: example_new_token_def)
  have dist: "distinct (map row_id (tables example_db ConfirmEmailToken))"
    by (simp add: row_id_def example_defs)
  have old: "example_token \<in> set (tables example_db ConfirmEmailToken)"
    by (simp add: example_db_def)
  have ok: "example_token ''key'' = Some (PyStr ''0a1b2c'')" by (simp add: example_token_def)
  have sec: "row_id (example_new_token v) = PyNone \<or>
             row_id (example_new_token v) \<noteq> row_id example_token"
    for v by (simp add: row_id_def example_new_token_def)
  from example_new_token_saved obtain d' t where
    s: "ConfirmEmailToken_save ?g example_db (example_new_token (PyStr [])) no_args = (d', Inr t)"
    by blast
  note th = ConfirmEmailToken_key[where d = example_db]
  from th[of "example_new_token (PyStr [])" ?g no_args, THEN conjunct1, rule_format,
          of "PyStr []" d' t] k s
  have "t ''key'' = Some (if truthy (PyStr []) then PyStr [] else PyStr ?g)" by blast
  then have a: "t ''key'' = Some (PyStr ?g)" by simp
  have u0: "example_new_token (PyStr []) ''user'' = Some (PyInt 1)"
    by (simp add: example_new_token_def)
  have b: "t ''user'' = Some (PyInt 1)"
    using s u0
      token_saved_attrs(2)[of example_db "(example_new_token (PyStr []))(''key'' \<mapsto> PyStr ?g)" d' t]
    by (simp add: ConfirmEmailToken_save_def k Model_save_no_args)
  have r1: "ConfirmEmailToken_save ''0a1b2c'' example_db (example_new_token (PyStr [])) no_args
     = (example_db, Inl IntegrityError)"
  proof (rule th[of "example_new_token (PyStr [])" "''0a1b2c''" no_args, THEN conjunct2,
                 THEN conjunct2, THEN conjunct1, rule_format, of "PyStr []" example_token])
    show "example_new_token (PyStr []) ''key'' = Some (PyStr []) \<and>
          example_token \<in> set (tables example_db ConfirmEmailToken) \<and>
          example_token ''key'' = Some (if truthy (PyStr []) then PyStr [] else PyStr ''0a1b2c'') \<and>
          (row_id (example_new_token (PyStr [])) = PyNone \<or>
           row_id (example_new_token (PyStr [])) \<noteq> row_id example_token)"
      using k old ok sec[of "PyStr []"] by simp
  qed
  have r2: "ConfirmEmailToken_save ?g example_db (example_new_token (PyStr ''0a1b2c'')) no_args
     = (example_db, Inl IntegrityError)"
  proof (rule th[of "example_new_token (PyStr ''0a1b2c'')" ?g no_args, THEN conjunct2,
                 THEN conjunct2, THEN conjunct1, rule_format, of "PyStr ''0a1b2c''" example_token])
    show "example_new_token (PyStr ''0a1b2c'') ''key'' = Some (PyStr ''0a1b2c'') \<and>
          example_token \<in> set (tables example_db ConfirmEmailToken) \<and>
          example_token ''key''
            = Some (if truthy (PyStr ''0a1b2c'') then PyStr ''0a1b2c'' else PyStr ?g) \<and>
          (row_id (example_new_token (PyStr ''0a1b2c'')) = PyNone \<or>
           row_id (example_new_token (PyStr ''0a1b2c'')) \<noteq> row_id example_token)"
      using k2 old ok sec[of "PyStr ''0a1b2c''"] by simp
  qed
  from k dist a b old r1 r2 show ?thesis unfolding s by (simp add: result_attr_def attr_of_def)
qed

end
